theory Spec2Isabelle
  imports Main "HOL-Library.Word"
begin

section \<open>Buffers, big numbers and errors\<close>

text \<open>
  A Node.js \<open>Buffer\<close> is a list of bytes. A \<open>BN\<close> (bn.js) is an exact signed integer,
  modelled as \<open>int\<close>; its division truncates towards zero and asserts a non-zero
  divisor, and \<open>toNumber\<close> asserts that the value fits 53 bits.
\<close>

type_synonym byte = "8 word"
type_synonym buffer = "byte list"

text \<open>One constructor for every \<open>throw\<close> of the source and every assertion of the
  libraries it calls; the comment gives the message of the source.\<close>

datatype error =
    AssertionFailed                 \<comment> \<open>bn.js assert: division by zero, toNumber over 53 bits\<close>
  | TypeError                       \<comment> \<open>a property read or a method called on undefined or null\<close>
  | InvalidAddressLength            \<comment> \<open>'Invalid address length' (Address constructor)\<close>
  | MustBeArray                     \<comment> \<open>'Invalid serialized header input. Must be array'\<close>
  | MoreValuesThanExpected          \<comment> \<open>'invalid header. More values than expected were received'\<close>
  | InvalidRlp                      \<comment> \<open>rlp.decode rejects its input\<close>
  | GenesisNeedsChainstart          \<comment> \<open>'Genesis parameters can only be set with ... chainstart'\<close>
  | InvalidFieldWidth string nat    \<comment> \<open>'<field> must be <n> bytes, received <m> bytes'\<close>
  | InvalidDAOExtraData             \<comment> \<open>"extraData should be 'dao-hard-fork'"\<close>
  | DifficultyOnlyPoW               \<comment> \<open>'difficulty calculation is only supported on PoW chains'\<close>
  | DifficultyOnlyEthash            \<comment> \<open>'difficulty calculation currently only supports the ethash algorithm'\<close>
  | DifficultyValidationOnlyPoW     \<comment> \<open>'difficulty validation is currently only supported on PoW chains'\<close>
  | OnlyClique string               \<comment> \<open>'BlockHeader.<name>() call only supported for clique PoA networks'\<close>
  | InvalidAmountOfExtraData        \<comment> \<open>'invalid amount of extra data'\<close>
  | InvalidCliqueExtraData nat      \<comment> \<open>'extraData must be 97 bytes on non-epoch transition blocks, received <m> bytes'\<close>
  | InvalidCliqueSignerList int     \<comment> \<open>'invalid signer list length in extraData, ...'\<close>
  | InvalidCliqueCoinbase           \<comment> \<open>'coinbase must be filled with zeros on epoch transition blocks, ...'\<close>
  | InvalidCliqueMixHash            \<comment> \<open>'mixHash must be filled with zeros, ...'\<close>
  | MissingParent                   \<comment> \<open>'could not find parent header'\<close>
  | BlockchainError                 \<comment> \<open>any other error of blockchain.getBlock, rethrown\<close>
  | InvalidNumber                   \<comment> \<open>'invalid number'\<close>
  | InvalidTimestamp                \<comment> \<open>'invalid timestamp'\<close>
  | InvalidCliquePeriod             \<comment> \<open>'invalid timestamp diff (lower than period)'\<close>
  | InvalidDifficulty               \<comment> \<open>'invalid difficulty'\<close>
  | InvalidGasLimit                 \<comment> \<open>'invalid gas limit'\<close>
  | InvalidUncleDistance            \<comment> \<open>'uncle block has a parent that is too old or too young'\<close>

definition bind :: "error + 'a \<Rightarrow> ('a \<Rightarrow> error + 'b) \<Rightarrow> error + 'b" where
  "bind m f = (case m of Inl e \<Rightarrow> Inl e | Inr x \<Rightarrow> f x)"

definition bn_div :: "int \<Rightarrow> int \<Rightarrow> error + int" where
  "bn_div a b = (if b = 0 then Inl AssertionFailed
                 else Inr (sgn a * sgn b * (\<bar>a\<bar> div \<bar>b\<bar>)))"

definition bn_mod :: "int \<Rightarrow> int \<Rightarrow> error + int" where
  "bn_mod a b = (if b = 0 then Inl AssertionFailed
                 else Inr (sgn a * (\<bar>a\<bar> mod \<bar>b\<bar>)))"

text \<open>\<open>idivn\<close> and \<open>divn\<close> by a non-zero literal: truncating division.\<close>

definition bn_divn :: "int \<Rightarrow> int \<Rightarrow> int" where
  "bn_divn a n = sgn a * sgn n * (\<bar>a\<bar> div \<bar>n\<bar>)"

definition bn_toNumber :: "int \<Rightarrow> error + int" where
  "bn_toNumber a = (if \<bar>a\<bar> < 2 ^ 53 then Inr a else Inl AssertionFailed)"

text \<open>
  \<open>gte\<close> given a plain number where it expects a \<open>BN\<close>. \<open>a.gte(num)\<close> is
  \<open>a.cmp(num) >= 0\<close>, and \<open>cmp\<close> begins

  \<^verbatim>\<open>if (this.negative !== 0 && num.negative === 0) return -1;\<close>

  \<^verbatim>\<open>if (this.negative === 0 && num.negative !== 0) return 1;\<close>

  and goes on with \<open>this.ucmp(num)\<close>, which reads \<open>num.words[i]\<close>. A number has neither
  field: \<open>num.negative\<close> is \<open>undefined\<close>, so for a receiver that is not negative the
  second test holds and \<open>cmp\<close> answers 1, whatever the number is; for a negative receiver
  both tests fail and \<open>ucmp\<close> reads an index of \<open>undefined\<close>, a TypeError.
\<close>

definition bn_gte_number :: "int \<Rightarrow> int \<Rightarrow> error + bool" where
  "bn_gte_number a num = (if 0 \<le> a then Inr True else Inl TypeError)"

text \<open>\<open>zeros(n)\<close> and \<open>Buffer.alloc(n)\<close>.\<close>

definition zeros :: "nat \<Rightarrow> buffer" where
  "zeros n = replicate n 0"

text \<open>The hash of the RLP encoding of the empty list, a constant of ethereumjs-util.\<close>

definition KECCAK256_RLP_ARRAY :: buffer where
  "KECCAK256_RLP_ARRAY =
    [0x1d, 0xcc, 0x4d, 0xe8, 0xde, 0xc7, 0x5d, 0x7a, 0xab, 0x85, 0xb5, 0x67, 0xb6, 0xcc, 0xd4, 0x1a,
     0xd3, 0x12, 0x45, 0x1b, 0x94, 0x8a, 0x74, 0x13, 0xf0, 0xa1, 0x42, 0xfd, 0x40, 0xd4, 0x93, 0x47]"

definition CLIQUE_EXTRA_VANITY :: int where
  "CLIQUE_EXTRA_VANITY = 32"

definition CLIQUE_EXTRA_SEAL :: int where
  "CLIQUE_EXTRA_SEAL = 65"

definition DEFAULT_GAS_LIMIT :: int where
  "DEFAULT_GAS_LIMIT = 0xffffffffffffff"

section \<open>The chain parameters\<close>

text \<open>
  \<open>Common\<close> (package @ethereumjs/common) supplies the chain parameters. It is a
  collaborator of the header code: each method the header calls is a field here, so
  every theorem holds for any parameter table.
\<close>

record genesis_params =
  genesis_gasLimit :: int
  genesis_timestamp :: int
  genesis_difficulty :: int
  genesis_extraData :: buffer
  genesis_nonce :: buffer
  genesis_stateRoot :: buffer

record common =
  hardfork :: "string option"
  activeHardfork :: "int \<Rightarrow> string"
  consensusType :: string
  consensusAlgorithm :: string
  consensusConfig_epoch :: int
  consensusConfig_period :: int
  paramByHardfork :: "string \<Rightarrow> string \<Rightarrow> string \<Rightarrow> int"
  hardforkGteHardfork :: "string \<Rightarrow> string \<Rightarrow> bool"
  hardforkIsActiveOnChain :: "string \<Rightarrow> bool"
  hardforkBlock :: "string \<Rightarrow> int"
  genesis :: genesis_params

section \<open>The block header\<close>

text \<open>The fields of \<open>BlockHeader\<close>; \<open>coinbase\<close> is the buffer of the \<open>Address\<close>.\<close>

record header =
  parentHash :: buffer
  uncleHash :: buffer
  coinbase :: buffer
  stateRoot :: buffer
  transactionsTrie :: buffer
  receiptTrie :: buffer
  bloom :: buffer
  difficulty :: int
  number :: int
  gasLimit :: int
  gasUsed :: int
  timestamp :: int
  extraData :: buffer
  mixHash :: buffer
  nonce :: buffer

text \<open>\<open>_getHardfork\<close>: \<open>hardfork() || activeHardfork(number.toNumber())\<close>; the empty
  string is falsy as \<open>null\<close> is.\<close>

definition getHardfork :: "common \<Rightarrow> header \<Rightarrow> error + string" where
  "getHardfork c this =
    (case hardfork c of
       Some hf \<Rightarrow> if hf \<noteq> [] then Inr hf
                  else bind (bn_toNumber (number this)) (\<lambda>n. Inr (activeHardfork c n))
     | None \<Rightarrow> bind (bn_toNumber (number this)) (\<lambda>n. Inr (activeHardfork c n)))"

text \<open>The delay of the difficulty bomb: \<open>num.isubn(d); if (num.ltn(0)) num = new BN(0)\<close>.\<close>

definition bomb_delay :: "int \<Rightarrow> int \<Rightarrow> int" where
  "bomb_delay num d = (if num - d < 0 then 0 else num - d)"

text \<open>\<open>MAX(cutoff, a)\<close> with \<open>cutoff = -99\<close>.\<close>

definition cutoff_max :: "int \<Rightarrow> int" where
  "cutoff_max a = (if -99 > a then -99 else a)"

text \<open>
  \<open>canonicalDifficulty\<close>. The variable \<open>dif\<close> of the source is assigned in the
  hardfork branches only, so it is an option here, and using it unassigned is a TypeError.
\<close>

definition canonicalDifficulty :: "common \<Rightarrow> header \<Rightarrow> header \<Rightarrow> error + int" where
  "canonicalDifficulty c this parentBlockHeader =
    (if consensusType c \<noteq> ''pow'' then Inl DifficultyOnlyPoW
     else if consensusAlgorithm c \<noteq> ''ethash'' then Inl DifficultyOnlyEthash
     else bind (getHardfork c this) (\<lambda>hf.
       let blockTs = timestamp this;
           parentTs = timestamp parentBlockHeader;
           parentDif = difficulty parentBlockHeader;
           minimumDifficulty = paramByHardfork c ''pow'' ''minimumDifficulty'' hf
       in bind (bn_div parentDif (paramByHardfork c ''pow'' ''difficultyBoundDivisor'' hf)) (\<lambda>offset.
       let num0 = number this;
           dif0 = (if hardforkGteHardfork c hf ''byzantium''
                   then let uncleAddend = (if uncleHash parentBlockHeader = KECCAK256_RLP_ARRAY
                                           then 1 else 2);
                            a = cutoff_max (- bn_divn (blockTs - parentTs) 9 + uncleAddend)
                        in Some (parentDif + offset * a)
                   else None);
           (num, dif1) =
             (if hardforkGteHardfork c hf ''muirGlacier'' then (bomb_delay num0 9000000, dif0)
              else if hardforkGteHardfork c hf ''constantinople'' then (bomb_delay num0 5000000, dif0)
              else if hardforkGteHardfork c hf ''byzantium'' then (bomb_delay num0 3000000, dif0)
              else if hardforkGteHardfork c hf ''homestead''
                then let a = cutoff_max (- bn_divn (blockTs - parentTs) 10 + 1)
                     in (num0, Some (parentDif + offset * a))
              else if parentTs + paramByHardfork c ''pow'' ''durationLimit'' hf > blockTs
                then (num0, Some (offset + parentDif))
              else (num0, Some (parentDif - offset)));
           exp = bn_divn num 100000 - 2
       in case dif1 of
            None \<Rightarrow> Inl TypeError
          | Some d \<Rightarrow>
              let dif2 = (if \<not> exp < 0 then d + 2 ^ nat exp else d)
              in Inr (if dif2 < minimumDifficulty then minimumDifficulty else dif2))))"

text \<open>\<open>validateDifficulty\<close>.\<close>

definition validateDifficulty :: "common \<Rightarrow> header \<Rightarrow> header \<Rightarrow> error + bool" where
  "validateDifficulty c this parentBlockHeader =
    (if consensusType c \<noteq> ''pow'' then Inl DifficultyValidationOnlyPoW
     else bind (canonicalDifficulty c this parentBlockHeader) (\<lambda>d. Inr (d = difficulty this)))"

text \<open>
  \<open>validateGasLimit\<close>. The divisor is wrapped in \<open>new BN\<close>; the minimum is not: the
  last comparison, \<open>gte\<close>, is given the number of \<open>paramByHardfork\<close> as it is. The
  conjunction \<open>&&\<close> evaluates its right operand only when the left one holds.
\<close>

definition validateGasLimit :: "common \<Rightarrow> header \<Rightarrow> header \<Rightarrow> error + bool" where
  "validateGasLimit c this parentBlockHeader =
    (let parentGasLimit = gasLimit parentBlockHeader;
         thisGasLimit = gasLimit this
     in bind (getHardfork c this) (\<lambda>hf.
        bind (bn_div parentGasLimit (paramByHardfork c ''gasConfig'' ''gasLimitBoundDivisor'' hf)) (\<lambda>a.
        let maxGasLimit = parentGasLimit + a;
            minGasLimit = parentGasLimit - a
        in if thisGasLimit < maxGasLimit
           then if thisGasLimit > minGasLimit
                then bn_gte_number thisGasLimit (paramByHardfork c ''gasConfig'' ''minGasLimit'' hf)
                else Inr False
           else Inr False)))"

text \<open>\<open>isGenesis\<close>.\<close>

definition isGenesis :: "header \<Rightarrow> bool" where
  "isGenesis this = (number this = 0)"

text \<open>\<open>_requireClique\<close>.\<close>

definition requireClique :: "common \<Rightarrow> string \<Rightarrow> error + unit" where
  "requireClique c name =
    (if consensusAlgorithm c \<noteq> ''clique'' then Inl (OnlyClique name) else Inr ())"

text \<open>\<open>cliqueIsEpochTransition\<close>: \<open>this.number.mod(epoch).isZero()\<close>.\<close>

definition cliqueIsEpochTransition :: "common \<Rightarrow> header \<Rightarrow> error + bool" where
  "cliqueIsEpochTransition c this =
    bind (requireClique c ''cliqueIsEpochTransition'') (\<lambda>_.
    bind (bn_mod (number this) (consensusConfig_epoch c)) (\<lambda>r. Inr (r = 0)))"

text \<open>The remainder operator \<open>%\<close> of JavaScript on integers, for a non-zero divisor:
  the sign follows the dividend.\<close>

definition js_rem :: "int \<Rightarrow> int \<Rightarrow> int" where
  "js_rem a b = sgn a * (\<bar>a\<bar> mod \<bar>b\<bar>)"

text \<open>\<open>Address.isZero\<close>: the address equals \<open>Address.zero()\<close>, twenty zero bytes.\<close>

definition address_isZero :: "buffer \<Rightarrow> bool" where
  "address_isZero a = (a = zeros 20)"

text \<open>
  The blockchain is used through \<open>getBlock(hash)\<close> only, which finds a block, fails
  with a \<open>NotFoundError\<close>, or fails otherwise.
\<close>

datatype getBlock_result = Found header | NotFoundError | OtherError

type_synonym blockchain = "buffer \<Rightarrow> getBlock_result"

text \<open>\<open>_getHeaderByHash\<close>.\<close>

definition getHeaderByHash :: "blockchain \<Rightarrow> buffer \<Rightarrow> error + header option" where
  "getHeaderByHash blockchain hash =
    (case blockchain hash of
       Found h \<Rightarrow> Inr (Some h)
     | NotFoundError \<Rightarrow> Inr None
     | OtherError \<Rightarrow> Inl BlockchainError)"

text \<open>
  \<open>validate\<close>; \<open>height\<close> is the optional second argument. The function is written in
  three parts: \<open>validate_extraData\<close> is the block on \<open>extraData\<close>, coinbase and mixHash
  before the parent is looked up, \<open>validate_against_parent\<close> the checks after it, and
  \<open>validate\<close> puts them in sequence.
\<close>

definition validate_extraData :: "common \<Rightarrow> header \<Rightarrow> string \<Rightarrow> error + unit" where
  "validate_extraData c this hf =
    (if consensusAlgorithm c \<noteq> ''clique''
     then (if int (length (extraData this)) > paramByHardfork c ''vm'' ''maxExtraDataSize'' hf
           then Inl InvalidAmountOfExtraData else Inr ())
     else
       let minLength = CLIQUE_EXTRA_VANITY + CLIQUE_EXTRA_SEAL in
       bind (cliqueIsEpochTransition c this) (\<lambda>epochTransition.
       bind (if \<not> epochTransition
             then (if int (length (extraData this)) \<noteq> minLength
                   then Inl (InvalidCliqueExtraData (length (extraData this)))
                   else Inr ())
             else
               let signerLength = int (length (extraData this)) - minLength in
               if js_rem signerLength 20 \<noteq> 0 then Inl (InvalidCliqueSignerList signerLength)
               else if \<not> address_isZero (coinbase this) then Inl InvalidCliqueCoinbase
               else Inr ()) (\<lambda>_.
       if mixHash this \<noteq> zeros 32 then Inl InvalidCliqueMixHash else Inr ())))"

definition validate_against_parent ::
  "common \<Rightarrow> header \<Rightarrow> header \<Rightarrow> int option \<Rightarrow> error + unit" where
  "validate_against_parent c this parentHeader height =
    (if number this \<noteq> number parentHeader + 1 then Inl InvalidNumber
     else if timestamp this \<le> timestamp parentHeader then Inl InvalidTimestamp
     else
     bind (if consensusAlgorithm c = ''clique''
           then (if timestamp parentHeader + consensusConfig_period c > timestamp this
                 then Inl InvalidCliquePeriod else Inr ())
           else Inr ()) (\<lambda>_.
     bind (if consensusType c = ''pow''
           then bind (validateDifficulty c this parentHeader) (\<lambda>ok.
                  if \<not> ok then Inl InvalidDifficulty else Inr ())
           else Inr ()) (\<lambda>_.
     bind (validateGasLimit c this parentHeader) (\<lambda>ok.
     if \<not> ok then Inl InvalidGasLimit
     else (case height of
             None \<Rightarrow> Inr ()
           | Some ht \<Rightarrow>
               let dif = ht - number parentHeader in
               if \<not> (dif < 8 \<and> dif > 1) then Inl InvalidUncleDistance else Inr ())))))"

definition validate :: "common \<Rightarrow> header \<Rightarrow> blockchain \<Rightarrow> int option \<Rightarrow> error + unit" where
  "validate c this blockchain height =
    (if isGenesis this then Inr ()
     else
     bind (getHardfork c this) (\<lambda>hf.
     bind (validate_extraData c this hf) (\<lambda>_.
     bind (getHeaderByHash blockchain (parentHash this)) (\<lambda>found.
     case found of
       None \<Rightarrow> Inl MissingParent
     | Some parentHeader \<Rightarrow> validate_against_parent c this parentHeader height))))"

text \<open>\<open>_validateHeaderFields\<close>.\<close>

definition validateHeaderFields :: "header \<Rightarrow> error + unit" where
  "validateHeaderFields this =
    (if length (parentHash this) \<noteq> 32
       then Inl (InvalidFieldWidth ''parentHash'' (length (parentHash this)))
     else if length (stateRoot this) \<noteq> 32
       then Inl (InvalidFieldWidth ''stateRoot'' (length (stateRoot this)))
     else if length (transactionsTrie this) \<noteq> 32
       then Inl (InvalidFieldWidth ''transactionsTrie'' (length (transactionsTrie this)))
     else if length (receiptTrie this) \<noteq> 32
       then Inl (InvalidFieldWidth ''receiptTrie'' (length (receiptTrie this)))
     else if length (mixHash this) \<noteq> 32
       then Inl (InvalidFieldWidth ''mixHash'' (length (mixHash this)))
     else if length (nonce this) \<noteq> 8
       then Inl (InvalidFieldWidth ''nonce'' (length (nonce this)))
     else Inr ())"

text \<open>\<open>_checkDAOExtraData\<close>; the constant is
  \<open>Buffer.from('64616f2d686172642d666f726b', 'hex')\<close>.\<close>

definition DAO_ExtraData :: buffer where
  "DAO_ExtraData = [0x64, 0x61, 0x6f, 0x2d, 0x68, 0x61, 0x72, 0x64, 0x2d, 0x66, 0x6f, 0x72, 0x6b]"

definition DAO_ForceExtraDataRange :: int where
  "DAO_ForceExtraDataRange = 9"

definition checkDAOExtraData :: "common \<Rightarrow> header \<Rightarrow> error + unit" where
  "checkDAOExtraData c this =
    (if hardforkIsActiveOnChain c ''dao'' then
       let blockNumber = number this;
           DAOActivationBlock = hardforkBlock c ''dao''
       in if blockNumber \<ge> DAOActivationBlock then
            let drift = blockNumber - DAOActivationBlock
            in if drift \<le> DAO_ForceExtraDataRange then
                 (if extraData this \<noteq> DAO_ExtraData then Inl InvalidDAOExtraData else Inr ())
               else Inr ()
          else Inr ()
     else Inr ())"

text \<open>
  The options of the constructor. \<open>freeze\<close> has no effect on the values and is left
  out. The constructor builds a default \<open>Common\<close> when none is given and may call
  \<open>setHardforkByBlockNumber\<close> on it: both belong to the package of \<open>Common\<close> and are
  fields of \<open>common_lib\<close>.
\<close>

record block_options =
  opt_common :: "common option"
  opt_hardforkByBlockNumber :: bool
  opt_initWithGenesisHeader :: bool
  opt_calcDifficultyFromHeader :: "header option"

record common_lib =
  new_Common_mainnet :: common
  new_Common_mainnet_chainstart :: common
  setHardforkByBlockNumber :: "common \<Rightarrow> int \<Rightarrow> common"

text \<open>The replacements of \<open>initWithGenesisHeader\<close>.\<close>

definition genesis_values :: "common \<Rightarrow> header \<Rightarrow> header" where
  "genesis_values c h =
    h\<lparr> number := 0,
       gasLimit := (if gasLimit h = DEFAULT_GAS_LIMIT then genesis_gasLimit (genesis c)
                    else gasLimit h),
       timestamp := (if timestamp h = 0 then genesis_timestamp (genesis c) else timestamp h),
       difficulty := (if difficulty h = 0 then genesis_difficulty (genesis c) else difficulty h),
       extraData := (if length (extraData h) = 0 then genesis_extraData (genesis c)
                     else extraData h),
       nonce := (if nonce h = zeros 8 then genesis_nonce (genesis c) else nonce h),
       stateRoot := (if stateRoot h = zeros 32 then genesis_stateRoot (genesis c)
                     else stateRoot h) \<rparr>"

text \<open>
  The constructor: the fifteen values come as a \<open>header\<close>; the result is the header
  with its \<open>_common\<close>. \<open>constructor_options\<close> is its first part, which chooses the
  \<open>Common\<close> and applies \<open>hardforkByBlockNumber\<close> and \<open>initWithGenesisHeader\<close>.
\<close>

definition constructor_options ::
  "common_lib \<Rightarrow> header \<Rightarrow> block_options \<Rightarrow> error + (common \<times> header)" where
  "constructor_options lib values options =
    (let c0 = (case opt_common options of
                 Some c \<Rightarrow> c
               | None \<Rightarrow> if opt_initWithGenesisHeader options
                         then new_Common_mainnet_chainstart lib
                         else new_Common_mainnet lib)
     in
     bind (if opt_hardforkByBlockNumber options
           then bind (bn_toNumber (number values)) (\<lambda>n. Inr (setHardforkByBlockNumber lib c0 n))
           else Inr c0) (\<lambda>c.
     if opt_initWithGenesisHeader options
     then (if hardfork c \<noteq> Some ''chainstart'' then Inl GenesisNeedsChainstart
           else Inr (c, genesis_values c values))
     else Inr (c, values)))"

definition BlockHeader :: "common_lib \<Rightarrow> header \<Rightarrow> block_options \<Rightarrow> error + (common \<times> header)" where
  "BlockHeader lib values options =
    bind (constructor_options lib values options) (\<lambda>(c, this).
    bind (validateHeaderFields this) (\<lambda>_.
    bind (checkDAOExtraData c this) (\<lambda>_.
    bind (case opt_calcDifficultyFromHeader options of
            None \<Rightarrow> Inr this
          | Some parentBlockHeader \<Rightarrow>
              bind (canonicalDifficulty c this parentBlockHeader) (\<lambda>d.
                Inr (this\<lparr>difficulty := d\<rparr>))) (\<lambda>this'.
    Inr (c, this')))))"

subsection \<open>Serialization\<close>

text \<open>
  \<open>toBuffer(bn)\<close> is \<open>bn.toArrayLike(Buffer)\<close>: the big-endian bytes of the magnitude, one
  zero byte for zero. \<open>unpadBuffer\<close> strips the leading zero bytes. \<open>new BN(buffer)\<close> reads
  a buffer as a big-endian number.
\<close>

function be_bytes :: "int \<Rightarrow> buffer" where
  "be_bytes n = (if n \<le> 0 then [] else be_bytes (n div 256) @ [of_int (n mod 256)])"
  by pat_completeness auto
termination
  by (relation "measure nat") auto

declare be_bytes.simps [simp del]

definition bn_toBuffer :: "int \<Rightarrow> buffer" where
  "bn_toBuffer v = (if v = 0 then [0] else be_bytes \<bar>v\<bar>)"

definition unpadBuffer :: "buffer \<Rightarrow> buffer" where
  "unpadBuffer a = dropWhile (\<lambda>b. b = 0) a"

definition new_BN :: "buffer \<Rightarrow> int" where
  "new_BN b = foldl (\<lambda>acc x. acc * 256 + uint x) 0 b"

text \<open>\<open>toBuffer\<close> on a buffer or \<open>undefined\<close>.\<close>

definition toBuffer :: "buffer option \<Rightarrow> buffer" where
  "toBuffer v = (case v of None \<Rightarrow> [] | Some b \<Rightarrow> b)"

text \<open>\<open>new Address(buf)\<close> asserts twenty bytes.\<close>

definition new_Address :: "buffer \<Rightarrow> error + buffer" where
  "new_Address buf = (if length buf = 20 then Inr buf else Inl InvalidAddressLength)"

text \<open>\<open>raw\<close>.\<close>

definition raw :: "header \<Rightarrow> buffer list" where
  "raw this =
    [ parentHash this,
      uncleHash this,
      coinbase this,
      stateRoot this,
      transactionsTrie this,
      receiptTrie this,
      bloom this,
      unpadBuffer (bn_toBuffer (difficulty this)),
      unpadBuffer (bn_toBuffer (number this)),
      unpadBuffer (bn_toBuffer (gasLimit this)),
      unpadBuffer (bn_toBuffer (gasUsed this)),
      unpadBuffer (bn_toBuffer (timestamp this)),
      extraData this,
      mixHash this,
      nonce this ]"

text \<open>
  The RLP codec and keccak256 belong to other packages: the header code is
  verified for any pair of functions. \<open>rlp.decode\<close> returns a buffer or an array.
\<close>

datatype rlp_decoded = Bytes buffer | Array "buffer list"

record rlp_codec =
  rlp_encode :: "buffer list \<Rightarrow> buffer"
  rlp_decode :: "buffer \<Rightarrow> error + rlp_decoded"

text \<open>\<open>serialize\<close>.\<close>

definition serialize :: "rlp_codec \<Rightarrow> header \<Rightarrow> buffer" where
  "serialize codec this = rlp_encode codec (raw this)"

text \<open>\<open>Buffer.slice(start, end)\<close>: a negative index counts from the end, and both are
  clamped to the buffer.\<close>

definition slice_index :: "nat \<Rightarrow> int \<Rightarrow> nat" where
  "slice_index len i = (if i < 0 then nat (max (int len + i) 0) else min (nat i) len)"

definition buffer_slice :: "buffer \<Rightarrow> int \<Rightarrow> int \<Rightarrow> buffer" where
  "buffer_slice b start stop =
    (let s = slice_index (length b) start;
         e = slice_index (length b) stop
     in take (e - s) (drop s b))"

text \<open>\<open>hash\<close>: \<open>hash_raw\<close> is the array handed to \<open>rlphash\<close>, which is keccak256 of the
  RLP encoding.\<close>

definition hash_raw :: "common \<Rightarrow> header \<Rightarrow> buffer list" where
  "hash_raw c this =
    (let raw = raw this
     in if consensusAlgorithm c = ''clique'' \<and> \<not> isGenesis this
        then raw[12 := buffer_slice (extraData this) 0
                         (int (length (extraData this)) - CLIQUE_EXTRA_SEAL)]
        else raw)"

definition rlphash :: "rlp_codec \<Rightarrow> (buffer \<Rightarrow> buffer) \<Rightarrow> buffer list \<Rightarrow> buffer" where
  "rlphash codec keccak256 a = keccak256 (rlp_encode codec a)"

definition hash :: "rlp_codec \<Rightarrow> (buffer \<Rightarrow> buffer) \<Rightarrow> common \<Rightarrow> header \<Rightarrow> buffer" where
  "hash codec keccak256 c this = rlphash codec keccak256 (hash_raw c this)"

text \<open>\<open>fromValuesArray\<close>: a missing position is \<open>undefined\<close>.\<close>

definition value_at :: "buffer list \<Rightarrow> nat \<Rightarrow> buffer option" where
  "value_at values i = (if i < length values then Some (values ! i) else None)"

definition fromValuesArray ::
  "common_lib \<Rightarrow> buffer list \<Rightarrow> block_options \<Rightarrow> error + (common \<times> header)" where
  "fromValuesArray lib values opts =
    (if length values > 15 then Inl MoreValuesThanExpected
     else
     bind (new_Address (toBuffer (value_at values 2))) (\<lambda>address.
     BlockHeader lib
       \<lparr> parentHash = toBuffer (value_at values 0),
         uncleHash = toBuffer (value_at values 1),
         coinbase = address,
         stateRoot = toBuffer (value_at values 3),
         transactionsTrie = toBuffer (value_at values 4),
         receiptTrie = toBuffer (value_at values 5),
         bloom = toBuffer (value_at values 6),
         difficulty = new_BN (toBuffer (value_at values 7)),
         number = new_BN (toBuffer (value_at values 8)),
         gasLimit = new_BN (toBuffer (value_at values 9)),
         gasUsed = new_BN (toBuffer (value_at values 10)),
         timestamp = new_BN (toBuffer (value_at values 11)),
         extraData = toBuffer (value_at values 12),
         mixHash = toBuffer (value_at values 13),
         nonce = toBuffer (value_at values 14) \<rparr>
       opts))"

text \<open>\<open>fromRLPSerializedHeader\<close>.\<close>

definition fromRLPSerializedHeader ::
  "rlp_codec \<Rightarrow> common_lib \<Rightarrow> buffer \<Rightarrow> block_options \<Rightarrow> error + (common \<times> header)" where
  "fromRLPSerializedHeader codec lib serialized opts =
    bind (rlp_decode codec serialized) (\<lambda>values.
    case values of
      Bytes _ \<Rightarrow> Inl MustBeArray
    | Array vs \<Rightarrow> fromValuesArray lib vs opts)"

section \<open>The RLPx server\<close>

text \<open>
  The pattern \<open>ignoredErrors\<close> is the alternation of eleven literals, none of which
  holds a character that is special in a regular expression; it has no flag, so
  \<open>test\<close> has no state: \<open>ignoredErrors.test(m)\<close> is true when one of the literals occurs
  in \<open>m\<close>.
\<close>

definition ignoredErrors :: "string list" where
  "ignoredErrors =
    [ ''EPIPE'',
      ''ECONNRESET'',
      ''ETIMEDOUT'',
      ''NetworkId mismatch'',
      ''Timeout error: ping'',
      ''Genesis block mismatch'',
      ''Handshake timed out'',
      ''Invalid address buffer'',
      ''Invalid MAC'',
      ''Invalid timestamp buffer'',
      ''Hash verification failed'' ]"

fun starts_with :: "string \<Rightarrow> string \<Rightarrow> bool" where
  "starts_with [] m = True"
| "starts_with (p # ps) [] = False"
| "starts_with (p # ps) (x # xs) = (p = x \<and> starts_with ps xs)"

fun occurs_in :: "string \<Rightarrow> string \<Rightarrow> bool" where
  "occurs_in p [] = (p = [])"
| "occurs_in p (x # xs) = (starts_with p (x # xs) \<or> occurs_in p xs)"

definition ignoredErrors_test :: "string \<Rightarrow> bool" where
  "ignoredErrors_test m = list_ex (\<lambda>p. occurs_in p m) ignoredErrors"

text \<open>An \<open>Error\<close> with its message; the peer record \<open>RlpxPeer\<close>; the session
  \<open>Devp2pRLPxPeer\<close>, whose \<open>getId()\<close> may be null.\<close>

record js_error =
  message :: string

record rlpx_peer =
  peer_id :: string
  host :: string
  port :: int
  inbound :: bool

record devp2p_peer =
  getId :: "buffer option"
  socket_remoteAddress :: string
  socket_remotePort :: int
  socket_server :: bool

text \<open>An emitted event: the emitter, the name of the event and its arguments.\<close>

datatype emitter = Server | Peer rlpx_peer

datatype argument = ErrorArg js_error | PeerArg rlpx_peer | ReasonArg nat

datatype event = Emit emitter string "argument list"

text \<open>The lines of \<open>logger.debug\<close>.\<close>

datatype log_entry = Peer_connected rlpx_peer | Peer_disconnected nat rlpx_peer

text \<open>The instances of the devp2p package: all that the server does to them here
  is \<open>destroy()\<close>.\<close>

record devp2p_instance =
  destroyed :: bool

record rlpx_server =
  started :: bool
  peers :: "string \<rightharpoonup> rlpx_peer"
  rlpx :: "devp2p_instance option"
  dpt :: "devp2p_instance option"
  emitted :: "event list"
  debug_log :: "log_entry list"

text \<open>\<open>RlpxServer.error\<close>.\<close>

definition error :: "rlpx_server \<Rightarrow> js_error \<Rightarrow> rlpx_peer option \<Rightarrow> rlpx_server" where
  "error s e peer =
    (if ignoredErrors_test (message e) then s
     else (case peer of
             Some p \<Rightarrow> s\<lparr>emitted := emitted s @ [Emit (Peer p) ''error'' [ErrorArg e]]\<rparr>
           | None \<Rightarrow> s\<lparr>emitted := emitted s @ [Emit Server ''error'' [ErrorArg e]]\<rparr>))"

text \<open>\<open>RlpxServer.stop\<close>; \<open>super_stop\<close> is the \<open>stop\<close> of the base class \<open>Server\<close>.\<close>

definition stop ::
  "(rlpx_server \<Rightarrow> rlpx_server) \<Rightarrow> rlpx_server \<Rightarrow> error + (bool \<times> rlpx_server)" where
  "stop super_stop s =
    (if started s then
       (case rlpx s of
          None \<Rightarrow> Inl TypeError
        | Some r \<Rightarrow>
            let s1 = s\<lparr>rlpx := Some (r\<lparr>destroyed := True\<rparr>)\<rparr> in
            (case dpt s1 of
               None \<Rightarrow> Inl TypeError
             | Some d \<Rightarrow>
                 let s2 = s1\<lparr>dpt := Some (d\<lparr>destroyed := True\<rparr>)\<rparr>;
                     s3 = super_stop s2;
                     s4 = s3\<lparr>started := False\<rparr>
                 in Inr (started s4, s4)))
     else Inr (started s, s))"

text \<open>\<open>buffer.toString('hex')\<close>.\<close>

definition hex_digit :: "nat \<Rightarrow> char" where
  "hex_digit n = ''0123456789abcdef'' ! n"

definition toString_hex :: "buffer \<Rightarrow> string" where
  "toString_hex b = concat (map (\<lambda>x. [hex_digit (unat x div 16), hex_digit (unat x mod 16)]) b)"

text \<open>
  The handler of \<open>peer:added\<close>; \<open>accept\<close> is the handshake \<open>peer.accept(rlpxPeer, this)\<close>,
  which fails with an error or succeeds.
\<close>

definition peer_added ::
  "(rlpx_peer \<Rightarrow> devp2p_peer \<Rightarrow> js_error option) \<Rightarrow> rlpx_server \<Rightarrow> devp2p_peer
     \<Rightarrow> error + rlpx_server" where
  "peer_added accept s rlpxPeer =
    (case getId rlpxPeer of
       None \<Rightarrow> Inl TypeError
     | Some b \<Rightarrow>
         let peer = \<lparr> peer_id = toString_hex b,
                      host = socket_remoteAddress rlpxPeer,
                      port = socket_remotePort rlpxPeer,
                      inbound = socket_server rlpxPeer \<rparr>
         in (case accept peer rlpxPeer of
               None \<Rightarrow>
                 Inr (s\<lparr> peers := (peers s)(peer_id peer \<mapsto> peer),
                          debug_log := debug_log s @ [Peer_connected peer],
                          emitted := emitted s @ [Emit Server ''connected'' [PeerArg peer]] \<rparr>)
             | Some e \<Rightarrow> Inr (error s e None)))"

text \<open>The handler of \<open>peer:removed\<close>; the reason goes to the log line only.\<close>

definition peer_removed :: "rlpx_server \<Rightarrow> devp2p_peer \<Rightarrow> nat \<Rightarrow> error + rlpx_server" where
  "peer_removed s rlpxPeer reason =
    (case getId rlpxPeer of
       None \<Rightarrow> Inl TypeError
     | Some b \<Rightarrow>
         let id = toString_hex b;
             peer = peers s id
         in (case peer of
               Some p \<Rightarrow>
                 Inr (s\<lparr> peers := (peers s)(peer_id p := None),
                          debug_log := debug_log s @ [Peer_disconnected reason p],
                          emitted := emitted s @ [Emit Server ''disconnected'' [PeerArg p]] \<rparr>)
             | None \<Rightarrow> Inr s))"

section \<open>Concrete inputs\<close>

text \<open>
  The values of \<open>fromHeaderData\<close> for an empty dictionary, and chain parameters in the
  shape of the mainnet and of a clique network, for the examples below. A hardfork is
  at least another when it comes later in \<open>hardfork_order\<close>.
\<close>

definition KECCAK256_RLP :: buffer where
  "KECCAK256_RLP =
    [0x56, 0xe8, 0x1f, 0x17, 0x1b, 0xcc, 0x55, 0xa6, 0xff, 0x83, 0x45, 0xe6, 0x92, 0xc0, 0xf8, 0x6e,
     0x5b, 0x48, 0xe0, 0x1b, 0x99, 0x6c, 0xad, 0xc0, 0x01, 0x62, 0x2f, 0xb5, 0xe3, 0x63, 0xb4, 0x21]"

definition default_header :: header where
  "default_header =
    \<lparr> parentHash = zeros 32,
      uncleHash = KECCAK256_RLP_ARRAY,
      coinbase = zeros 20,
      stateRoot = zeros 32,
      transactionsTrie = KECCAK256_RLP,
      receiptTrie = KECCAK256_RLP,
      bloom = zeros 256,
      difficulty = 0,
      number = 0,
      gasLimit = DEFAULT_GAS_LIMIT,
      gasUsed = 0,
      timestamp = 0,
      extraData = [],
      mixHash = zeros 32,
      nonce = zeros 8 \<rparr>"

definition hardfork_order :: "string list" where
  "hardfork_order =
    [''chainstart'', ''homestead'', ''dao'', ''tangerineWhistle'', ''spuriousDragon'',
     ''byzantium'', ''constantinople'', ''petersburg'', ''istanbul'', ''muirGlacier'']"

fun rank :: "string list \<Rightarrow> string \<Rightarrow> nat option" where
  "rank [] h = None"
| "rank (x # xs) h = (if x = h then Some 0 else map_option Suc (rank xs h))"

definition rank_gte :: "string \<Rightarrow> string \<Rightarrow> bool" where
  "rank_gte a b =
    (case (rank hardfork_order a, rank hardfork_order b) of
       (Some i, Some j) \<Rightarrow> i \<ge> j
     | _ \<Rightarrow> False)"

definition example_params :: "string \<Rightarrow> string \<Rightarrow> string \<Rightarrow> int" where
  "example_params topic name hf =
    (if name = ''minimumDifficulty'' then 131072
     else if name = ''difficultyBoundDivisor'' then 2048
     else if name = ''durationLimit'' then 13
     else if name = ''gasLimitBoundDivisor'' then 1024
     else if name = ''minGasLimit'' then 5000
     else if name = ''maxExtraDataSize'' then 32
     else 0)"

definition example_genesis :: genesis_params where
  "example_genesis =
    \<lparr> genesis_gasLimit = 5000,
      genesis_timestamp = 0,
      genesis_difficulty = 17179869184,
      genesis_extraData = [0x11, 0xbb],
      genesis_nonce = [0, 0, 0, 0, 0, 0, 0, 0x42],
      genesis_stateRoot = KECCAK256_RLP \<rparr>"

definition ethash_common :: "string \<Rightarrow> common" where
  "ethash_common hf =
    \<lparr> hardfork = Some hf,
      activeHardfork = (\<lambda>n. hf),
      consensusType = ''pow'',
      consensusAlgorithm = ''ethash'',
      consensusConfig_epoch = 0,
      consensusConfig_period = 0,
      paramByHardfork = example_params,
      hardforkGteHardfork = rank_gte,
      hardforkIsActiveOnChain = (\<lambda>n. n = ''dao''),
      hardforkBlock = (\<lambda>n. if n = ''dao'' then 1920000 else 0),
      genesis = example_genesis \<rparr>"

definition clique_common :: common where
  "clique_common =
    \<lparr> hardfork = Some ''istanbul'',
      activeHardfork = (\<lambda>n. ''istanbul''),
      consensusType = ''poa'',
      consensusAlgorithm = ''clique'',
      consensusConfig_epoch = 30000,
      consensusConfig_period = 15,
      paramByHardfork = example_params,
      hardforkGteHardfork = rank_gte,
      hardforkIsActiveOnChain = (\<lambda>n. False),
      hardforkBlock = (\<lambda>n. 0),
      genesis = example_genesis \<rparr>"

definition s1_parent :: header where
  "s1_parent = default_header\<lparr>number := 4999999, timestamp := 1000000, difficulty := 1000000000000\<rparr>"

definition s1_header :: header where
  "s1_header = default_header\<lparr>number := 5000000, timestamp := 1000009\<rparr>"

text \<open>The headers of the examples on \<open>validate\<close>.\<close>

definition c2_header :: header where
  "c2_header = default_header\<lparr>number := 1, extraData := replicate 97 0, mixHash := replicate 32 1\<rparr>"

definition c4_parent :: header where
  "c4_parent =
    default_header\<lparr>number := 1, timestamp := 1000, difficulty := 131072, gasLimit := 5000\<rparr>"

definition c4_header :: header where
  "c4_header =
    default_header\<lparr>number := 2, timestamp := 1010, difficulty := 131072, gasLimit := 4999\<rparr>"

text \<open>
  A package of \<open>Common\<close> whose \<open>setHardforkByBlockNumber\<close> sets the hardfork active at
  the block, the options that give a \<open>Common\<close> and nothing else, and the values of the
  examples on the constructor.
\<close>

definition example_lib :: common_lib where
  "example_lib =
    \<lparr> new_Common_mainnet = ethash_common ''istanbul'',
      new_Common_mainnet_chainstart = ethash_common ''chainstart'',
      setHardforkByBlockNumber = (\<lambda>c n. c\<lparr>hardfork := Some (activeHardfork c n)\<rparr>) \<rparr>"

definition plain_options :: "common \<Rightarrow> block_options" where
  "plain_options c =
    \<lparr> opt_common = Some c,
      opt_hardforkByBlockNumber = False,
      opt_initWithGenesisHeader = False,
      opt_calcDifficultyFromHeader = None \<rparr>"

definition c3_values :: header where
  "c3_values = default_header\<lparr>uncleHash := [], bloom := [0x01]\<rparr>"

definition c3_short_nonce :: header where
  "c3_short_nonce = default_header\<lparr>nonce := [0x01, 0x02]\<rparr>"

definition c6_values :: header where
  "c6_values = default_header\<lparr>parentHash := [], number := 1920005\<rparr>"

definition c6_dao_values :: header where
  "c6_dao_values = default_header\<lparr>number := 1920005, extraData := [0x64, 0x61, 0x6f]\<rparr>"

text \<open>
  RLP as the package \<open>rlp\<close> encodes a byte string and an array of byte strings: a
  single byte below \<open>0x80\<close> is its own encoding; a string of fewer than 56 bytes has the
  prefix \<open>0x80 + length\<close>, a longer one the prefix \<open>0xb7 +\<close> the number of bytes of its
  length, then the length in big-endian bytes; an array has the prefixes \<open>0xc0\<close> and
  \<open>0xf7\<close> before the concatenated encodings of its items. The decoder inverts the
  encoder and has fuel for one item a byte. It is exact on encodings only: an input that
  is no encoding is \<open>InvalidRlp\<close> here, where the package is lenient with some (the empty
  input decodes to an empty buffer there, and \<open>0xc2 0x01\<close>, an array cut short, to an
  array of one item).
\<close>

definition encode_length :: "nat \<Rightarrow> nat \<Rightarrow> buffer" where
  "encode_length len offset =
    (if len < 56 then [of_nat (len + offset)]
     else let bl = be_bytes (int len) in of_nat (length bl + offset + 55) # bl)"

definition rlp_encode_item :: "buffer \<Rightarrow> buffer" where
  "rlp_encode_item b =
    (if length b = 1 \<and> hd b < 0x80 then b else encode_length (length b) 128 @ b)"

definition rlp_encode_array :: "buffer list \<Rightarrow> buffer" where
  "rlp_encode_array xs =
    (let payload = concat (map rlp_encode_item xs)
     in encode_length (length payload) 192 @ payload)"

definition decode_string :: "buffer \<Rightarrow> error + (buffer \<times> buffer)" where
  "decode_string input =
    (case input of
       [] \<Rightarrow> Inl InvalidRlp
     | p # rest \<Rightarrow>
         if p < 0x80 then Inr ([p], rest)
         else if p \<le> 0xb7 then
           (let n = unat p - 128
            in if length rest < n then Inl InvalidRlp
               else if n = 1 \<and> hd rest < 0x80 then Inl InvalidRlp
               else Inr (take n rest, drop n rest))
         else if p \<le> 0xbf then
           (let ll = unat p - 183
            in if length rest < ll then Inl InvalidRlp
               else let n = nat (new_BN (take ll rest));
                        rest' = drop ll rest
                    in if length rest' < n then Inl InvalidRlp
                       else Inr (take n rest', drop n rest'))
         else Inl InvalidRlp)"

fun decode_strings :: "nat \<Rightarrow> buffer \<Rightarrow> error + buffer list" where
  "decode_strings 0 input = (if input = [] then Inr [] else Inl InvalidRlp)"
| "decode_strings (Suc fuel) input =
    (if input = [] then Inr []
     else bind (decode_string input) (\<lambda>(x, rest).
          bind (decode_strings fuel rest) (\<lambda>xs. Inr (x # xs))))"

definition rlp_decode_buffer :: "buffer \<Rightarrow> error + rlp_decoded" where
  "rlp_decode_buffer input =
    (case input of
       [] \<Rightarrow> Inl InvalidRlp
     | p # rest \<Rightarrow>
         if p < 0xc0 then
           bind (decode_string input) (\<lambda>(x, rest').
             if rest' = [] then Inr (Bytes x) else Inl InvalidRlp)
         else if p \<le> 0xf7 then
           (if length rest \<noteq> unat p - 192 then Inl InvalidRlp
            else bind (decode_strings (length rest) rest) (\<lambda>xs. Inr (Array xs)))
         else
           (let ll = unat p - 247
            in if length rest < ll then Inl InvalidRlp
               else let n = nat (new_BN (take ll rest));
                        payload = drop ll rest
                    in if length payload \<noteq> n then Inl InvalidRlp
                       else bind (decode_strings n payload) (\<lambda>xs. Inr (Array xs))))"

definition rlp :: rlp_codec where
  "rlp = \<lparr> rlp_encode = rlp_encode_array, rlp_decode = rlp_decode_buffer \<rparr>"

text \<open>The header of scenario S4, two clique headers and a running server with a peer.\<close>

definition s4_header :: header where
  "s4_header = default_header\<lparr>difficulty := 1, number := 2\<rparr>"

definition c7_header :: header where
  "c7_header = default_header\<lparr>number := 1, extraData := replicate 40 0x07\<rparr>"

definition c7_sealed_header :: header where
  "c7_sealed_header = default_header\<lparr>number := 1, extraData := replicate 32 0x01 @ replicate 65 0x02\<rparr>"

definition c8_server :: rlpx_server where
  "c8_server =
    \<lparr> started = True,
      peers = Map.empty,
      rlpx = Some \<lparr>destroyed = False\<rparr>,
      dpt = Some \<lparr>destroyed = False\<rparr>,
      emitted = [],
      debug_log = [] \<rparr>"

definition c9_session :: devp2p_peer where
  "c9_session =
    \<lparr> getId = Some [0xab, 0x01],
      socket_remoteAddress = ''10.0.0.7'',
      socket_remotePort = 30303,
      socket_server = False \<rparr>"

definition c9_peer :: rlpx_peer where
  "c9_peer = \<lparr> peer_id = ''ab01'', host = ''10.0.0.7'', port = 30303, inbound = False \<rparr>"

definition c9_server :: rlpx_server where
  "c9_server = c8_server\<lparr>peers := [''ab01'' \<mapsto> c9_peer]\<rparr>"

definition base_stop :: "rlpx_server \<Rightarrow> rlpx_server" where
  "base_stop s = s\<lparr>started := False\<rparr>"

section \<open>Notions of the specification\<close>

text \<open>Every peer is stored under its own id.\<close>

definition peers_keyed :: "rlpx_server \<Rightarrow> bool" where
  "peers_keyed s = (\<forall>k p. peers s k = Some p \<longrightarrow> peer_id p = k)"

section \<open>Big numbers and results\<close>

lemma bn_divn_nonneg: "0 \<le> a \<Longrightarrow> 0 < n \<Longrightarrow> bn_divn a n = a div n"
  by (auto simp: bn_divn_def sgn_if)

lemma bn_div_nonneg: "0 \<le> a \<Longrightarrow> 0 < b \<Longrightarrow> bn_div a b = Inr (a div b)"
  by (auto simp: bn_div_def sgn_if)

lemma bn_div_error: "bn_div a b = Inl e \<Longrightarrow> e = AssertionFailed"
  by (simp add: bn_div_def split: if_splits)

lemma bind_Inr: "bind (Inr x) f = f x"
  by (simp add: bind_def)

lemma bind_Inl: "bind (Inl e) f = Inl e"
  by (simp add: bind_def)

lemma bind_eq_Inl: "bind m f = Inl e \<longleftrightarrow> m = Inl e \<or> (\<exists>x. m = Inr x \<and> f x = Inl e)"
  by (cases m) (simp_all add: bind_def)

lemma bind_eq_Inr: "bind m f = Inr y \<longleftrightarrow> (\<exists>x. m = Inr x \<and> f x = Inr y)"
  by (cases m) (simp_all add: bind_def)

lemma cutoff_max_eq: "cutoff_max a = max (- 99) a"
  by (simp add: cutoff_max_def max_def)

lemma bomb_delay_eq: "bomb_delay n d = max 0 (n - d)"
  by (simp add: bomb_delay_def max_def)

lemma abs_mod_eq_0: "(\<bar>a\<bar> mod \<bar>b\<bar> = 0) = (a mod b = 0)" for a b :: int
  by (simp add: mod_eq_0_iff_dvd)

lemma js_rem_zero_iff: "(js_rem a 20 = 0) = (a mod 20 = 0)"
  using abs_mod_eq_0 [of a 20] by (auto simp: js_rem_def sgn_if)

lemma getHardfork_error: "getHardfork c this = Inl e \<Longrightarrow> e = AssertionFailed"
  by (auto simp: getHardfork_def bind_def bn_toNumber_def split: option.splits if_splits)

section \<open>The canonical difficulty\<close>

text \<open>
  C1. On a PoW ethash chain whose resolved hardfork \<open>h\<close> is at least byzantium, and with
  \<open>header.timestamp \<ge> parent.timestamp\<close>, \<open>canonicalDifficulty(header, parent)\<close> is
  \<open>max(minimumDifficulty, parent.difficulty + bound * a + bomb)\<close>, where
  \<open>bound = parent.difficulty / difficultyBoundDivisor\<close>,
  \<open>a = max(-99, u - floor((header.timestamp - parent.timestamp) / 9))\<close> with \<open>u = 1\<close> if
  \<open>parent.uncleHash\<close> is \<open>KECCAK256_RLP_ARRAY\<close> and \<open>2\<close> otherwise, and \<open>bomb\<close> is
  \<open>2 ^ e\<close> for \<open>e = floor(max(0, header.number - delay) / 100000) - 2\<close> when \<open>e \<ge> 0\<close> and
  \<open>0\<close> otherwise, with \<open>delay\<close> 9000000 from muirGlacier, 5000000 from constantinople and
  3000000 otherwise. The parent's difficulty is a non-negative number and the divisor a
  positive one, as the data model and the division require.
\<close>

theorem canonicalDifficulty_byzantium:
  assumes pow: "consensusType c = ''pow''"
    and ethash: "consensusAlgorithm c = ''ethash''"
    and hf: "getHardfork c this = Inr h"
    and byz: "hardforkGteHardfork c h ''byzantium''"
    and ts: "timestamp parent \<le> timestamp this"
    and pd: "0 \<le> difficulty parent"
    and dv: "0 < paramByHardfork c ''pow'' ''difficultyBoundDivisor'' h"
  shows "canonicalDifficulty c this parent =
    (let minimumDifficulty = paramByHardfork c ''pow'' ''minimumDifficulty'' h;
         bound = difficulty parent div paramByHardfork c ''pow'' ''difficultyBoundDivisor'' h;
         u = (if uncleHash parent = KECCAK256_RLP_ARRAY then 1 else 2);
         a = max (- 99) (u - (timestamp this - timestamp parent) div 9);
         delay = (if hardforkGteHardfork c h ''muirGlacier'' then 9000000
                  else if hardforkGteHardfork c h ''constantinople'' then 5000000
                  else 3000000);
         e = max 0 (number this - delay) div 100000 - 2;
         bomb = (if 0 \<le> e then 2 ^ nat e else 0)
     in Inr (max minimumDifficulty (difficulty parent + bound * a + bomb)))"
proof -
  define delay :: int where "delay = (if hardforkGteHardfork c h ''muirGlacier'' then 9000000
                  else if hardforkGteHardfork c h ''constantinople'' then 5000000
                  else 3000000)"
  define u :: int where "u = (if uncleHash parent = KECCAK256_RLP_ARRAY then 1 else 2)"
  define a where "a = max (- 99) (u - (timestamp this - timestamp parent) div 9)"
  define bound where "bound = difficulty parent div paramByHardfork c ''pow'' ''difficultyBoundDivisor'' h"
  define e where "e = max 0 (number this - delay) div 100000 - 2"
  have d9: "bn_divn (timestamp this - timestamp parent) 9 = (timestamp this - timestamp parent) div 9"
    using ts by (simp add: bn_divn_nonneg)
  have a_eq: "cutoff_max (- bn_divn (timestamp this - timestamp parent) 9 + u) = a"
    unfolding d9 cutoff_max_eq a_def by (simp add: algebra_simps)
  have bd: "bn_divn (max 0 (number this - d)) 100000 = max 0 (number this - d) div 100000" for d
    by (simp add: bn_divn_nonneg)
  have branch: "(if hardforkGteHardfork c h ''muirGlacier'' then (bomb_delay (number this) 9000000, d0)
              else if hardforkGteHardfork c h ''constantinople'' then (bomb_delay (number this) 5000000, d0)
              else (bomb_delay (number this) 3000000, d0)) = (max 0 (number this - delay), d0)"
    for d0 :: "int option"
    by (simp add: delay_def bomb_delay_eq)
  have fin: "(if x < m then m else x) = max m x" for x m :: int
    by (simp add: max_def)
  have "canonicalDifficulty c this parent =
     Inr (max (paramByHardfork c ''pow'' ''minimumDifficulty'' h)
        (if \<not> e < 0 then difficulty parent + bound * a + 2 ^ nat e else difficulty parent + bound * a))"
    unfolding canonicalDifficulty_def
    using pow ethash byz
    by (simp only: hf bind_Inr bn_div_nonneg [OF pd dv] Let_def if_True if_False simp_thms
        u_def [symmetric] a_eq branch prod.case bd e_def [symmetric] bound_def [symmetric]
        option.case fin)
  also have "\<dots> = Inr (max (paramByHardfork c ''pow'' ''minimumDifficulty'' h)
        (difficulty parent + bound * a + (if 0 \<le> e then 2 ^ nat e else 0)))"
    by (simp add: not_less)
  finally show ?thesis
    by (simp only: Let_def delay_def [symmetric] u_def [symmetric] a_def [symmetric]
        bound_def [symmetric] e_def [symmetric])
qed


theorem canonicalDifficulty_byzantium_witness:
  "consensusType (ethash_common ''byzantium'') = ''pow''
   \<and> consensusAlgorithm (ethash_common ''byzantium'') = ''ethash''
   \<and> getHardfork (ethash_common ''byzantium'') s1_header = Inr ''byzantium''
   \<and> hardforkGteHardfork (ethash_common ''byzantium'') ''byzantium'' ''byzantium''
   \<and> timestamp s1_parent \<le> timestamp s1_header
   \<and> 0 \<le> difficulty s1_parent
   \<and> 0 < paramByHardfork (ethash_common ''byzantium'') ''pow'' ''difficultyBoundDivisor'' ''byzantium''
   \<and> canonicalDifficulty (ethash_common ''byzantium'') s1_header s1_parent = Inr 1000000262144"
proof -
  have h1: "consensusType (ethash_common ''byzantium'') = ''pow''"
    and h2: "consensusAlgorithm (ethash_common ''byzantium'') = ''ethash''"
    and h3: "getHardfork (ethash_common ''byzantium'') s1_header = Inr ''byzantium''"
    and h4: "hardforkGteHardfork (ethash_common ''byzantium'') ''byzantium'' ''byzantium''"
    and h5: "timestamp s1_parent \<le> timestamp s1_header"
    and h6: "0 \<le> difficulty s1_parent"
    and h7: "0 < paramByHardfork (ethash_common ''byzantium'') ''pow'' ''difficultyBoundDivisor'' ''byzantium''"
    by (simp_all add: ethash_common_def getHardfork_def rank_gte_def hardfork_order_def
        s1_parent_def s1_header_def default_header_def example_params_def)
  have "canonicalDifficulty (ethash_common ''byzantium'') s1_header s1_parent = Inr 1000000262144"
    using canonicalDifficulty_byzantium [OF h1 h2 h3 h4 h5 h6 h7]
    by (simp add: ethash_common_def rank_gte_def hardfork_order_def s1_parent_def s1_header_def
        default_header_def example_params_def Let_def)
  with h1 h2 h3 h4 h5 h6 h7 show ?thesis by blast
qed


lemma canonicalDifficulty_error:
  assumes "canonicalDifficulty c this p = Inl e"
  shows "e = DifficultyOnlyPoW \<or> e = DifficultyOnlyEthash \<or> e = AssertionFailed \<or> e = TypeError"
proof (cases "consensusType c \<noteq> ''pow'' \<or> consensusAlgorithm c \<noteq> ''ethash''")
  case True
  then show ?thesis
    using assms by (auto simp: canonicalDifficulty_def split: if_splits)
next
  case False
  show ?thesis
  proof (cases "getHardfork c this")
    case (Inl e')
    then show ?thesis
      using assms False getHardfork_error [OF Inl]
      by (simp add: canonicalDifficulty_def bind_def)
  next
    case (Inr hf)
    show ?thesis
    proof (cases "bn_div (difficulty p) (paramByHardfork c ''pow'' ''difficultyBoundDivisor'' hf)")
      case (Inl e')
      then show ?thesis
        using assms False Inr bn_div_error [OF Inl]
        by (simp add: canonicalDifficulty_def bind_def)
    next
      case offset: (Inr offset)
      show ?thesis
        using assms False Inr offset
        by (simp add: canonicalDifficulty_def bind_def Let_def split: prod.splits option.splits)
    qed
  qed
qed

section \<open>Validation\<close>

lemma cliqueIsEpochTransition_eq:
  "consensusAlgorithm c = ''clique'' \<Longrightarrow>
   cliqueIsEpochTransition c this =
     (if consensusConfig_epoch c = 0 then Inl AssertionFailed
      else Inr (number this mod consensusConfig_epoch c = 0))"
  using abs_mod_eq_0 [of "number this" "consensusConfig_epoch c"]
  by (auto simp: cliqueIsEpochTransition_def requireClique_def bind_def bn_mod_def sgn_if)

lemma validate_extraData_error:
  "validate_extraData c this hf = Inl e \<Longrightarrow>
     e = InvalidAmountOfExtraData \<or> e = AssertionFailed
     \<or> e = InvalidCliqueExtraData (length (extraData this))
     \<or> e = InvalidCliqueSignerList (int (length (extraData this)) - 97)
     \<or> e = InvalidCliqueCoinbase \<or> e = InvalidCliqueMixHash"
proof (cases "consensusAlgorithm c = ''clique''")
  case True
  assume "validate_extraData c this hf = Inl e"
  then show ?thesis
    using True
    by (simp add: validate_extraData_def cliqueIsEpochTransition_eq bind_eq_Inl Let_def
        CLIQUE_EXTRA_VANITY_def CLIQUE_EXTRA_SEAL_def split: if_splits)
next
  case False
  assume "validate_extraData c this hf = Inl e"
  then show ?thesis
    using False by (simp add: validate_extraData_def split: if_splits)
qed


lemma bn_gte_number_error: "bn_gte_number a num = Inl e \<Longrightarrow> e = TypeError"
  by (simp add: bn_gte_number_def split: if_splits)

lemma validateGasLimit_error:
  "validateGasLimit c this p = Inl e \<Longrightarrow> e = AssertionFailed \<or> e = TypeError"
  by (auto simp: validateGasLimit_def bind_eq_Inl Let_def
      dest: getHardfork_error bn_div_error bn_gte_number_error split: if_splits)

lemma validate_against_parent_error:
  "validate_against_parent c this p height = Inl e \<Longrightarrow>
     e \<in> {InvalidNumber, InvalidTimestamp, InvalidCliquePeriod, InvalidDifficulty, InvalidGasLimit,
          InvalidUncleDistance, DifficultyOnlyPoW, DifficultyOnlyEthash, AssertionFailed, TypeError}"
  unfolding validate_against_parent_def validateDifficulty_def
  by (auto simp: bind_eq_Inl bind_eq_Inr Let_def
      dest: canonicalDifficulty_error validateGasLimit_error split: option.splits if_splits)

lemma validate_extraData_clique:
  assumes "consensusAlgorithm c = ''clique''" and "consensusConfig_epoch c \<noteq> 0"
  shows "validate_extraData c this hf =
    (if number this mod consensusConfig_epoch c = 0
     then (if (int (length (extraData this)) - 97) mod 20 \<noteq> 0
             then Inl (InvalidCliqueSignerList (int (length (extraData this)) - 97))
           else if coinbase this \<noteq> zeros 20 then Inl InvalidCliqueCoinbase
           else if mixHash this \<noteq> zeros 32 then Inl InvalidCliqueMixHash
           else Inr ())
     else (if length (extraData this) \<noteq> 97
             then Inl (InvalidCliqueExtraData (length (extraData this)))
           else if mixHash this \<noteq> zeros 32 then Inl InvalidCliqueMixHash
           else Inr ()))"
  using assms
  by (simp add: validate_extraData_def cliqueIsEpochTransition_eq bind_Inr bind_Inl Let_def
      js_rem_zero_iff address_isZero_def CLIQUE_EXTRA_VANITY_def CLIQUE_EXTRA_SEAL_def)

lemma validate_after_extraData:
  assumes "\<not> isGenesis this" and "getHardfork c this = Inr h"
  shows "validate c this bc ht =
    (case validate_extraData c this h of
       Inl e \<Rightarrow> Inl e
     | Inr _ \<Rightarrow>
        (case bc (parentHash this) of
           Found p \<Rightarrow> validate_against_parent c this p ht
         | NotFoundError \<Rightarrow> Inl MissingParent
         | OtherError \<Rightarrow> Inl BlockchainError))"
  using assms
  by (simp add: validate_def bind_def getHeaderByHash_def
      split: sum.splits getBlock_result.splits)

text \<open>
  C2, as the code has it. On a clique chain \<open>validate\<close> requires of a non-genesis header
  that \<open>mixHash\<close> is 32 zero bytes whether or not the header is an epoch transition: a
  header that is no epoch transition is rejected unless \<open>len(extraData) = 97\<close> and
  \<open>mixHash\<close> is zero; an epoch-transition header is rejected unless
  \<open>(len(extraData) - 97) mod 20 = 0\<close>, the coinbase is the zero address and \<open>mixHash\<close> is
  zero. Each of the four errors is raised exactly as stated below, whatever the later
  checks of \<open>validate\<close> do.
\<close>

theorem validate_clique_extraData:
  assumes clique: "consensusAlgorithm c = ''clique''"
    and ng: "number this \<noteq> 0"
    and hf: "getHardfork c this = Inr h"
    and ep: "consensusConfig_epoch c \<noteq> 0"
  shows "let len = int (length (extraData this));
             epochTransition = (number this mod consensusConfig_epoch c = 0)
         in (validate c this bc ht = Inl (InvalidCliqueExtraData (length (extraData this)))
               \<longleftrightarrow> \<not> epochTransition \<and> len \<noteq> 97)
          \<and> (validate c this bc ht = Inl (InvalidCliqueSignerList (len - 97))
               \<longleftrightarrow> epochTransition \<and> (len - 97) mod 20 \<noteq> 0)
          \<and> (validate c this bc ht = Inl InvalidCliqueCoinbase
               \<longleftrightarrow> epochTransition \<and> (len - 97) mod 20 = 0 \<and> coinbase this \<noteq> zeros 20)
          \<and> (validate c this bc ht = Inl InvalidCliqueMixHash
               \<longleftrightarrow> (if epochTransition then (len - 97) mod 20 = 0 \<and> coinbase this = zeros 20
                    else len = 97)
                   \<and> mixHash this \<noteq> zeros 32)"
proof -
  have ng': "\<not> isGenesis this"
    using ng by (simp add: isGenesis_def)
  have later: "e \<in> {MissingParent, BlockchainError, InvalidNumber, InvalidTimestamp,
      InvalidCliquePeriod, InvalidDifficulty, InvalidGasLimit, InvalidUncleDistance,
      DifficultyOnlyPoW, DifficultyOnlyEthash, AssertionFailed, TypeError}"
    if "validate_extraData c this h = Inr ()" and "validate c this bc ht = Inl e" for e
    using that validate_against_parent_error [of c this _ ht e]
    by (auto simp: validate_after_extraData [OF ng' hf] split: getBlock_result.splits)
  show ?thesis
  proof (cases "validate_extraData c this h")
    case (Inl e)
    then have "validate c this bc ht = Inl e"
      by (simp add: validate_after_extraData [OF ng' hf])
    then show ?thesis
      using Inl unfolding validate_extraData_clique [OF clique ep] Let_def
      by (auto split: if_splits)
  next
    case (Inr u)
    then have ok: "validate_extraData c this h = Inr ()"
      by simp
    have no: "validate c this bc ht \<noteq> Inl (InvalidCliqueExtraData n)"
      "validate c this bc ht \<noteq> Inl (InvalidCliqueSignerList k)"
      "validate c this bc ht \<noteq> Inl InvalidCliqueCoinbase"
      "validate c this bc ht \<noteq> Inl InvalidCliqueMixHash" for n k
      using later [OF ok] by auto
    show ?thesis
      using ok unfolding validate_extraData_clique [OF clique ep] Let_def
      by (simp add: no split: if_splits)
  qed
qed

theorem validate_clique_extraData_witness:
  "consensusAlgorithm clique_common = ''clique''
   \<and> number c2_header \<noteq> 0
   \<and> getHardfork clique_common c2_header = Inr ''istanbul''
   \<and> consensusConfig_epoch clique_common \<noteq> 0
   \<and> number c2_header mod consensusConfig_epoch clique_common \<noteq> 0
   \<and> validate clique_common c2_header (\<lambda>_. NotFoundError) None = Inl InvalidCliqueMixHash"
proof -
  have h1: "consensusAlgorithm clique_common = ''clique''"
    and h2: "number c2_header \<noteq> 0"
    and h3: "getHardfork clique_common c2_header = Inr ''istanbul''"
    and h4: "consensusConfig_epoch clique_common \<noteq> 0"
    and h5: "number c2_header mod consensusConfig_epoch clique_common \<noteq> 0"
    by (simp_all add: clique_common_def c2_header_def default_header_def getHardfork_def)
  have "validate clique_common c2_header (\<lambda>_. NotFoundError) None = Inl InvalidCliqueMixHash"
    using validate_clique_extraData [OF h1 h2 h3 h4, of "\<lambda>_. NotFoundError" None]
    by (simp add: Let_def clique_common_def c2_header_def default_header_def zeros_def)
  with h1 h2 h3 h4 h5 show ?thesis by blast
qed

text \<open>
  The claim C2 as it is written lets a clique header that is no epoch transition pass
  with a non-zero \<open>mixHash\<close>. The code rejects it: block 1 of a chain of epoch 30000, with
  97 bytes of \<open>extraData\<close> and a \<open>mixHash\<close> of 32 bytes \<open>0x01\<close>.
\<close>

theorem validate_clique_mixHash_counterexample:
  "consensusAlgorithm clique_common = ''clique''
   \<and> number c2_header \<noteq> 0
   \<and> cliqueIsEpochTransition clique_common c2_header = Inr False
   \<and> length (extraData c2_header) = 97
   \<and> validate clique_common c2_header (\<lambda>_. NotFoundError) None = Inl InvalidCliqueMixHash"
  by (simp add: clique_common_def c2_header_def default_header_def validate_def isGenesis_def
      getHardfork_def bind_def validate_extraData_def cliqueIsEpochTransition_def
      requireClique_def bn_mod_def zeros_def CLIQUE_EXTRA_VANITY_def CLIQUE_EXTRA_SEAL_def)

text \<open>
  What \<open>validateGasLimit\<close> computes for gas limits that are not negative, as every
  gas limit read from a buffer is: the two bounds relative to the parent, both strict, and
  nothing else. The parameter \<open>minGasLimit\<close> has no part in the result.
\<close>

lemma validateGasLimit_parent_bounds:
  assumes hf: "getHardfork c this = Inr h"
    and gl: "0 \<le> gasLimit parent"
    and dv: "0 < paramByHardfork c ''gasConfig'' ''gasLimitBoundDivisor'' h"
    and tl: "0 \<le> gasLimit this"
  shows "validateGasLimit c this parent =
    Inr (gasLimit parent - gasLimit parent div paramByHardfork c ''gasConfig'' ''gasLimitBoundDivisor'' h
           < gasLimit this
         \<and> gasLimit this
           < gasLimit parent + gasLimit parent div paramByHardfork c ''gasConfig'' ''gasLimitBoundDivisor'' h)"
  by (simp add: validateGasLimit_def hf bind_Inr bn_div_nonneg [OF gl dv] Let_def
      bn_gte_number_def tl)

text \<open>
  C4. The claim makes a gas limit valid only when it is at least \<open>minGasLimit\<close>, and
  makes \<open>validate\<close> raise \<open>InvalidGasLimit\<close> otherwise. The code does not enforce the
  minimum. With \<open>minGasLimit = 5000\<close> and \<open>gasLimitBoundDivisor = 1024\<close>, take a parent
  of gas limit 5000 (block 1, timestamp 1000, difficulty 131072) and a header of gas limit
  4999 (block 2, timestamp 1010, the canonical difficulty 131072). Then
  \<open>a = 5000 / 1024 = 4\<close> and \<open>4996 < 4999 < 5004\<close>, so the header is within the bounds
  of its parent, and \<open>4999 < 5000\<close>, so it is below the minimum: the predicate of the
  claim is false. \<open>validateGasLimit\<close> returns true and \<open>validate\<close> accepts the header.
\<close>

theorem validateGasLimit_below_minGasLimit:
  "paramByHardfork (ethash_common ''istanbul'') ''gasConfig'' ''gasLimitBoundDivisor'' ''istanbul'' = 1024
   \<and> paramByHardfork (ethash_common ''istanbul'') ''gasConfig'' ''minGasLimit'' ''istanbul'' = 5000
   \<and> gasLimit c4_parent = 5000
   \<and> gasLimit c4_header = 4999
   \<and> validateGasLimit (ethash_common ''istanbul'') c4_header c4_parent = Inr True
   \<and> validate (ethash_common ''istanbul'') c4_header (\<lambda>_. Found c4_parent) None = Inr ()"
proof -
  have d: "canonicalDifficulty (ethash_common ''istanbul'') c4_header c4_parent = Inr 131072"
    by (simp add: canonicalDifficulty_def ethash_common_def c4_header_def
        c4_parent_def default_header_def getHardfork_def example_params_def bind_def bn_div_def
        rank_gte_def hardfork_order_def Let_def bomb_delay_def cutoff_max_def bn_divn_def)
  have v: "validateGasLimit (ethash_common ''istanbul'') c4_header c4_parent = Inr True"
    by (simp add: validateGasLimit_def bn_gte_number_def ethash_common_def c4_header_def
        c4_parent_def default_header_def getHardfork_def example_params_def bind_def bn_div_def)
  have p: "validate_against_parent (ethash_common ''istanbul'') c4_header c4_parent None = Inr ()"
    unfolding validate_against_parent_def validateDifficulty_def d v
    by (simp add: ethash_common_def c4_header_def c4_parent_def default_header_def bind_def)
  have ng: "\<not> isGenesis c4_header"
    by (simp add: isGenesis_def c4_header_def)
  have hf: "getHardfork (ethash_common ''istanbul'') c4_header = Inr ''istanbul''"
    by (simp add: getHardfork_def ethash_common_def)
  have ex: "validate_extraData (ethash_common ''istanbul'') c4_header ''istanbul'' = Inr ()"
    by (simp add: validate_extraData_def ethash_common_def c4_header_def default_header_def
        example_params_def)
  have "validate (ethash_common ''istanbul'') c4_header (\<lambda>_. Found c4_parent) None = Inr ()"
    by (simp add: validate_after_extraData [OF ng hf] ex p)
  then show ?thesis
    using v
    by (simp add: ethash_common_def example_params_def c4_header_def c4_parent_def)
qed


section \<open>Construction\<close>

lemma validateHeaderFields_Inr:
  "validateHeaderFields this = Inr u \<longleftrightarrow>
     length (parentHash this) = 32 \<and> length (stateRoot this) = 32
     \<and> length (transactionsTrie this) = 32 \<and> length (receiptTrie this) = 32
     \<and> length (mixHash this) = 32 \<and> length (nonce this) = 8"
  by (simp add: validateHeaderFields_def)

lemma constructor_options_error:
  "constructor_options lib values opts = Inl e \<Longrightarrow> e = AssertionFailed \<or> e = GenesisNeedsChainstart"
  by (auto simp: constructor_options_def bind_eq_Inl Let_def bn_toNumber_def split: if_splits)

lemma genesis_values_fields:
  "parentHash (genesis_values c v) = parentHash v"
  "transactionsTrie (genesis_values c v) = transactionsTrie v"
  "receiptTrie (genesis_values c v) = receiptTrie v"
  "mixHash (genesis_values c v) = mixHash v"
  "length (stateRoot v) \<noteq> 32 \<Longrightarrow> stateRoot (genesis_values c v) = stateRoot v"
  "length (nonce v) \<noteq> 8 \<Longrightarrow> nonce (genesis_values c v) = nonce v"
  by (auto simp: genesis_values_def zeros_def)

lemma constructor_options_Inr:
  "constructor_options lib values opts = Inr (c, this) \<Longrightarrow>
     this = values \<or> this = genesis_values c values"
  by (auto simp: constructor_options_def bind_eq_Inr Let_def split: if_splits)

lemma constructor_options_widths:
  assumes "constructor_options lib values opts = Inr (c, this)"
  shows "(length (parentHash values) \<noteq> 32 \<longrightarrow> length (parentHash this) \<noteq> 32)
       \<and> (length (stateRoot values) \<noteq> 32 \<longrightarrow> length (stateRoot this) \<noteq> 32)
       \<and> (length (transactionsTrie values) \<noteq> 32 \<longrightarrow> length (transactionsTrie this) \<noteq> 32)
       \<and> (length (receiptTrie values) \<noteq> 32 \<longrightarrow> length (receiptTrie this) \<noteq> 32)
       \<and> (length (mixHash values) \<noteq> 32 \<longrightarrow> length (mixHash this) \<noteq> 32)
       \<and> (length (nonce values) \<noteq> 8 \<longrightarrow> length (nonce this) \<noteq> 8)"
  using constructor_options_Inr [OF assms]
  by (auto simp: genesis_values_fields)

lemma BlockHeader_Inr:
  assumes "BlockHeader lib values opts = Inr (c, h)"
  shows "\<exists>this. constructor_options lib values opts = Inr (c, this)
           \<and> validateHeaderFields this = Inr () \<and> checkDAOExtraData c this = Inr ()
           \<and> (h = this \<or> (\<exists>d. h = this\<lparr>difficulty := d\<rparr>))"
  using assms
  by (auto simp: BlockHeader_def bind_eq_Inr split: option.splits prod.splits)


lemma BlockHeader_widths_reject:
  assumes "validateHeaderFields this = Inl e"
    and "constructor_options lib values opts = Inr (c, this)"
  shows "BlockHeader lib values opts = Inl e"
  using assms by (simp add: BlockHeader_def bind_Inr bind_Inl)

text \<open>
  C3, as the code has it. The constructor rejects \<open>parentHash\<close>, \<open>stateRoot\<close>,
  \<open>transactionsTrie\<close>, \<open>receiptTrie\<close> or \<open>mixHash\<close> supplied at a length other than 32
  bytes and \<open>nonce\<close> at a length other than 8 bytes, whatever the options. Once the
  options are processed, the error names the first of these six fields, in this order,
  whose width is wrong. After a successful construction the six fields have their
  widths. The widths of \<open>uncleHash\<close> and \<open>bloom\<close> are not checked, and \<open>coinbase\<close> comes
  as an \<open>Address\<close>.
\<close>

theorem BlockHeader_field_widths:
  "(length (parentHash values) \<noteq> 32 \<or> length (stateRoot values) \<noteq> 32
      \<or> length (transactionsTrie values) \<noteq> 32 \<or> length (receiptTrie values) \<noteq> 32
      \<or> length (mixHash values) \<noteq> 32 \<or> length (nonce values) \<noteq> 8
     \<longrightarrow> (\<exists>e. BlockHeader lib values opts = Inl e))
   \<and> (constructor_options lib values opts = Inr (c, this) \<longrightarrow>
        (length (parentHash this) \<noteq> 32 \<longrightarrow>
           BlockHeader lib values opts = Inl (InvalidFieldWidth ''parentHash'' (length (parentHash this))))
      \<and> (length (parentHash this) = 32 \<and> length (stateRoot this) \<noteq> 32 \<longrightarrow>
           BlockHeader lib values opts = Inl (InvalidFieldWidth ''stateRoot'' (length (stateRoot this))))
      \<and> (length (parentHash this) = 32 \<and> length (stateRoot this) = 32
           \<and> length (transactionsTrie this) \<noteq> 32 \<longrightarrow>
           BlockHeader lib values opts
             = Inl (InvalidFieldWidth ''transactionsTrie'' (length (transactionsTrie this))))
      \<and> (length (parentHash this) = 32 \<and> length (stateRoot this) = 32
           \<and> length (transactionsTrie this) = 32 \<and> length (receiptTrie this) \<noteq> 32 \<longrightarrow>
           BlockHeader lib values opts
             = Inl (InvalidFieldWidth ''receiptTrie'' (length (receiptTrie this))))
      \<and> (length (parentHash this) = 32 \<and> length (stateRoot this) = 32
           \<and> length (transactionsTrie this) = 32 \<and> length (receiptTrie this) = 32
           \<and> length (mixHash this) \<noteq> 32 \<longrightarrow>
           BlockHeader lib values opts = Inl (InvalidFieldWidth ''mixHash'' (length (mixHash this))))
      \<and> (length (parentHash this) = 32 \<and> length (stateRoot this) = 32
           \<and> length (transactionsTrie this) = 32 \<and> length (receiptTrie this) = 32
           \<and> length (mixHash this) = 32 \<and> length (nonce this) \<noteq> 8 \<longrightarrow>
           BlockHeader lib values opts = Inl (InvalidFieldWidth ''nonce'' (length (nonce this)))))
   \<and> (BlockHeader lib values opts = Inr (c', h) \<longrightarrow>
        length (parentHash h) = 32 \<and> length (stateRoot h) = 32
        \<and> length (transactionsTrie h) = 32 \<and> length (receiptTrie h) = 32
        \<and> length (mixHash h) = 32 \<and> length (nonce h) = 8)"
proof (intro conjI impI)
  assume bad: "length (parentHash values) \<noteq> 32 \<or> length (stateRoot values) \<noteq> 32
      \<or> length (transactionsTrie values) \<noteq> 32 \<or> length (receiptTrie values) \<noteq> 32
      \<or> length (mixHash values) \<noteq> 32 \<or> length (nonce values) \<noteq> 8"
  show "\<exists>e. BlockHeader lib values opts = Inl e"
  proof (cases "constructor_options lib values opts")
    case (Inl e)
    then show ?thesis
      by (simp add: BlockHeader_def bind_Inl)
  next
    case (Inr r)
    obtain c0 this0 where r: "r = (c0, this0)"
      by (cases r)
    have "\<not> (length (parentHash this0) = 32 \<and> length (stateRoot this0) = 32
        \<and> length (transactionsTrie this0) = 32 \<and> length (receiptTrie this0) = 32
        \<and> length (mixHash this0) = 32 \<and> length (nonce this0) = 8)"
      using bad constructor_options_widths [OF Inr [unfolded r]] by blast
    then obtain e where "validateHeaderFields this0 = Inl e"
      using validateHeaderFields_Inr [of this0 "()"] by (cases "validateHeaderFields this0") auto
    then show ?thesis
      using BlockHeader_widths_reject Inr r by blast
  qed
next
  assume ok: "BlockHeader lib values opts = Inr (c', h)"
  obtain this0 where v: "validateHeaderFields this0 = Inr ()"
    and h: "h = this0 \<or> (\<exists>d. h = this0\<lparr>difficulty := d\<rparr>)"
    using BlockHeader_Inr [OF ok] by blast
  have "length (parentHash h) = 32 \<and> length (stateRoot h) = 32
        \<and> length (transactionsTrie h) = 32 \<and> length (receiptTrie h) = 32
        \<and> length (mixHash h) = 32 \<and> length (nonce h) = 8"
    using v h unfolding validateHeaderFields_Inr by auto
  then show "length (parentHash h) = 32" "length (stateRoot h) = 32"
    "length (transactionsTrie h) = 32" "length (receiptTrie h) = 32"
    "length (mixHash h) = 32" "length (nonce h) = 8"
    by simp_all
qed (simp_all add: BlockHeader_def bind_Inr bind_Inl validateHeaderFields_def)


theorem BlockHeader_field_widths_witness:
  "constructor_options example_lib c3_short_nonce (plain_options (ethash_common ''istanbul''))
     = Inr (ethash_common ''istanbul'', c3_short_nonce)
   \<and> length (nonce c3_short_nonce) \<noteq> 8
   \<and> BlockHeader example_lib c3_short_nonce (plain_options (ethash_common ''istanbul''))
       = Inl (InvalidFieldWidth ''nonce'' 2)"
proof -
  have o: "constructor_options example_lib c3_short_nonce (plain_options (ethash_common ''istanbul''))
     = Inr (ethash_common ''istanbul'', c3_short_nonce)"
    by (simp add: constructor_options_def plain_options_def bind_def)
  have n: "length (nonce c3_short_nonce) \<noteq> 8"
    by (simp add: c3_short_nonce_def default_header_def)
  have "BlockHeader example_lib c3_short_nonce (plain_options (ethash_common ''istanbul''))
       = Inl (InvalidFieldWidth ''nonce'' 2)"
    using BlockHeader_field_widths [of c3_short_nonce example_lib
        "plain_options (ethash_common ''istanbul'')" "ethash_common ''istanbul''" c3_short_nonce]
      o
    by (simp add: c3_short_nonce_def default_header_def zeros_def KECCAK256_RLP_def)
  with o n show ?thesis by blast
qed

text \<open>
  The claim C3 as it is written has the constructor reject a wrong width of \<open>uncleHash\<close>
  and of \<open>bloom\<close> too. Values with an empty \<open>uncleHash\<close> and a \<open>bloom\<close> of one byte are
  accepted.
\<close>

theorem BlockHeader_field_widths_counterexample:
  "length (uncleHash c3_values) \<noteq> 32 \<and> length (bloom c3_values) \<noteq> 256
   \<and> BlockHeader example_lib c3_values (plain_options (ethash_common ''istanbul''))
       = Inr (ethash_common ''istanbul'', c3_values)"
  by (simp add: BlockHeader_def constructor_options_def plain_options_def bind_def
      validateHeaderFields_def checkDAOExtraData_def c3_values_def default_header_def
      zeros_def KECCAK256_RLP_def ethash_common_def)

lemma validate_error:
  assumes "validate c this bc ht = Inl e"
  shows "e \<in> {AssertionFailed, InvalidAmountOfExtraData,
           InvalidCliqueExtraData (length (extraData this)),
           InvalidCliqueSignerList (int (length (extraData this)) - 97),
           InvalidCliqueCoinbase, InvalidCliqueMixHash, MissingParent, BlockchainError,
           InvalidNumber, InvalidTimestamp, InvalidCliquePeriod, InvalidDifficulty,
           InvalidGasLimit, InvalidUncleDistance, DifficultyOnlyPoW, DifficultyOnlyEthash,
           TypeError}"
proof (cases "isGenesis this")
  case True
  then show ?thesis
    using assms by (simp add: validate_def)
next
  case ng: False
  show ?thesis
  proof (cases "getHardfork c this")
    case (Inl e')
    then show ?thesis
      using assms ng getHardfork_error [OF Inl] by (simp add: validate_def bind_Inl)
  next
    case (Inr h)
    show ?thesis
    proof (cases "validate_extraData c this h")
      case (Inl e')
      then show ?thesis
        using assms validate_extraData_error [OF Inl]
        by (auto simp: validate_after_extraData [OF ng Inr])
    next
      case ok: (Inr u)
      show ?thesis
        using assms ok validate_against_parent_error [of c this _ ht e]
        by (auto simp: validate_after_extraData [OF ng Inr] split: getBlock_result.splits)
    qed
  qed
qed

lemma BlockHeader_calc_error:
  "(case calc of None \<Rightarrow> Inr this
    | Some parentBlockHeader \<Rightarrow>
        bind (canonicalDifficulty c this parentBlockHeader) (\<lambda>d. Inr (this\<lparr>difficulty := d\<rparr>)))
     \<noteq> Inl InvalidDAOExtraData"
  by (auto simp: bind_eq_Inl dest: canonicalDifficulty_error split: option.splits)

lemma BlockHeader_fails_on_DAO_iff:
  "BlockHeader lib values opts = Inl InvalidDAOExtraData \<longleftrightarrow>
     (\<exists>c this. constructor_options lib values opts = Inr (c, this)
        \<and> validateHeaderFields this = Inr ()
        \<and> checkDAOExtraData c this = Inl InvalidDAOExtraData)"
proof (cases "constructor_options lib values opts")
  case (Inl e)
  then show ?thesis
    using constructor_options_error [OF Inl] by (auto simp: BlockHeader_def bind_Inl)
next
  case (Inr r)
  obtain c0 this0 where r: "r = (c0, this0)"
    by (cases r)
  show ?thesis
  proof (cases "validateHeaderFields this0")
    case (Inl e)
    then have "e \<noteq> InvalidDAOExtraData"
      by (auto simp: validateHeaderFields_def split: if_splits)
    then show ?thesis
      using Inl Inr r by (simp add: BlockHeader_def bind_Inr bind_Inl)
  next
    case v: (Inr u)
    show ?thesis
    proof (cases "checkDAOExtraData c0 this0")
      case (Inl e)
      then show ?thesis
        using v Inr r by (simp add: BlockHeader_def bind_Inr bind_Inl)
    next
      case d: (Inr u')
      show ?thesis
        using v d Inr r BlockHeader_calc_error [where calc = "opt_calcDifficultyFromHeader opts" and this = this0 and c = c0]
        by (simp add: BlockHeader_def bind_Inr bind_eq_Inl)
    qed
  qed
qed

text \<open>
  C6, as the code has it. The check \<open>_checkDAOExtraData\<close> of a header on a chain with
  the dao hardfork, with \<open>hardforkBlock(dao) \<le> number\<close> and
  \<open>number - hardforkBlock(dao) \<le> 9\<close>, fails with \<open>InvalidDAOExtraData\<close> exactly when
  \<open>extraData\<close> is not the 13 ASCII bytes \<open>dao-hard-fork\<close>; outside that range, or
  without the dao hardfork, it accepts any \<open>extraData\<close>. The constructor fails with
  \<open>InvalidDAOExtraData\<close> exactly when its options are processed, the field widths are
  right and this check fails; \<open>validate\<close> never raises it.
\<close>

theorem checkDAOExtraData_gate:
  "DAO_ExtraData = map of_char ''dao-hard-fork'' \<and> length DAO_ExtraData = 13
   \<and> (hardforkIsActiveOnChain c ''dao'' \<and> hardforkBlock c ''dao'' \<le> number this
        \<and> number this - hardforkBlock c ''dao'' \<le> 9
      \<longrightarrow> (checkDAOExtraData c this = Inl InvalidDAOExtraData \<longleftrightarrow> extraData this \<noteq> DAO_ExtraData)
        \<and> (checkDAOExtraData c this = Inr () \<longleftrightarrow> extraData this = DAO_ExtraData))
   \<and> (\<not> hardforkIsActiveOnChain c ''dao'' \<or> number this < hardforkBlock c ''dao''
        \<or> 9 < number this - hardforkBlock c ''dao''
      \<longrightarrow> checkDAOExtraData c this = Inr ())
   \<and> (BlockHeader lib values opts = Inl InvalidDAOExtraData \<longleftrightarrow>
        (\<exists>c' this'. constructor_options lib values opts = Inr (c', this')
           \<and> validateHeaderFields this' = Inr ()
           \<and> checkDAOExtraData c' this' = Inl InvalidDAOExtraData))
   \<and> validate c this blockchain height \<noteq> Inl InvalidDAOExtraData"
proof -
  have "validate c this blockchain height \<noteq> Inl InvalidDAOExtraData"
    using validate_error [of c this blockchain height InvalidDAOExtraData] by auto
  then show ?thesis
    unfolding BlockHeader_fails_on_DAO_iff
    by (auto simp: checkDAOExtraData_def DAO_ForceExtraDataRange_def Let_def DAO_ExtraData_def)
qed

theorem checkDAOExtraData_gate_witness:
  "hardforkIsActiveOnChain (ethash_common ''istanbul'') ''dao''
   \<and> hardforkBlock (ethash_common ''istanbul'') ''dao'' \<le> number c6_dao_values
   \<and> number c6_dao_values - hardforkBlock (ethash_common ''istanbul'') ''dao'' \<le> 9
   \<and> extraData c6_dao_values \<noteq> DAO_ExtraData
   \<and> BlockHeader example_lib c6_dao_values (plain_options (ethash_common ''istanbul''))
       = Inl InvalidDAOExtraData"
proof -
  have h: "hardforkIsActiveOnChain (ethash_common ''istanbul'') ''dao''
      \<and> hardforkBlock (ethash_common ''istanbul'') ''dao'' \<le> number c6_dao_values
      \<and> number c6_dao_values - hardforkBlock (ethash_common ''istanbul'') ''dao'' \<le> 9"
    by (simp add: ethash_common_def c6_dao_values_def default_header_def)
  have x: "extraData c6_dao_values \<noteq> DAO_ExtraData"
    by (simp add: c6_dao_values_def default_header_def DAO_ExtraData_def)
  have o: "constructor_options example_lib c6_dao_values (plain_options (ethash_common ''istanbul''))
     = Inr (ethash_common ''istanbul'', c6_dao_values)"
    by (simp add: constructor_options_def plain_options_def bind_def)
  have v: "validateHeaderFields c6_dao_values = Inr ()"
    by (simp add: validateHeaderFields_def c6_dao_values_def default_header_def zeros_def
        KECCAK256_RLP_def)
  note t = checkDAOExtraData_gate [of "ethash_common ''istanbul''" c6_dao_values example_lib
      c6_dao_values "plain_options (ethash_common ''istanbul'')"]
  have "checkDAOExtraData (ethash_common ''istanbul'') c6_dao_values = Inl InvalidDAOExtraData"
    using t h x by blast
  then have "BlockHeader example_lib c6_dao_values (plain_options (ethash_common ''istanbul''))
       = Inl InvalidDAOExtraData"
    using t o v by blast
  with h x show ?thesis by blast
qed

text \<open>
  The claim C6 as it is written makes every construction in the range with another
  \<open>extraData\<close> fail with \<open>InvalidDAOExtraData\<close>. Values at block 1920005 with an empty
  \<open>extraData\<close> and an empty \<open>parentHash\<close> fail on the width of \<open>parentHash\<close>, which is
  checked first.
\<close>

theorem BlockHeader_InvalidDAOExtraData_counterexample:
  "hardforkIsActiveOnChain (ethash_common ''istanbul'') ''dao''
   \<and> hardforkBlock (ethash_common ''istanbul'') ''dao'' \<le> number c6_values
   \<and> number c6_values - hardforkBlock (ethash_common ''istanbul'') ''dao'' \<le> 9
   \<and> extraData c6_values \<noteq> DAO_ExtraData
   \<and> BlockHeader example_lib c6_values (plain_options (ethash_common ''istanbul''))
       = Inl (InvalidFieldWidth ''parentHash'' 0)"
  by (simp add: BlockHeader_def constructor_options_def plain_options_def bind_def
      validateHeaderFields_def c6_values_def default_header_def DAO_ExtraData_def
      ethash_common_def)

section \<open>Serialization\<close>

lemma new_BN_snoc: "new_BN (xs @ [b]) = new_BN xs * 256 + uint b"
  by (simp add: new_BN_def)

lemma uint_byte_of_int: "uint (of_int (n mod 256) :: byte) = n mod 256"
  by (simp add: uint_word_of_int take_bit_eq_mod)

lemma new_BN_be_bytes: "0 \<le> n \<Longrightarrow> new_BN (be_bytes n) = n"
proof (induction n rule: be_bytes.induct)
  case (1 n)
  show ?case
  proof (cases "n \<le> 0")
    case True
    then show ?thesis
      using "1.prems" by (simp add: be_bytes.simps [of 0] new_BN_def)
  next
    case False
    then have "new_BN (be_bytes (n div 256)) = n div 256"
      using "1.IH" by simp
    then show ?thesis
      using False by (simp add: be_bytes.simps [of n] new_BN_snoc uint_byte_of_int)
  qed
qed

lemma be_bytes_Nil_iff: "be_bytes n = [] \<longleftrightarrow> n \<le> 0"
  by (simp add: be_bytes.simps [of n])

lemma byte_of_int_eq_0: "0 < n \<Longrightarrow> n < 256 \<Longrightarrow> (of_int n :: byte) \<noteq> 0"
  by (auto simp: word_of_int_eq_0_iff take_bit_eq_mod dest: zdvd_imp_le)

lemma hd_be_bytes: "0 < n \<Longrightarrow> hd (be_bytes n) \<noteq> 0"
proof (induction n rule: be_bytes.induct)
  case (1 n)
  show ?case
  proof (cases "n div 256 \<le> 0")
    case True
    then have small: "n < 256"
      using "1.prems" by simp
    have "be_bytes (n div 256) = []"
      using True by (simp add: be_bytes_Nil_iff)
    then have "be_bytes n = [of_int n]"
      using "1.prems" small by (simp add: be_bytes.simps [of n])
    then show ?thesis
      using byte_of_int_eq_0 [OF "1.prems" small] by simp
  next
    case False
    then have "hd (be_bytes (n div 256)) \<noteq> 0" and "be_bytes (n div 256) \<noteq> []"
      using "1.IH" "1.prems" by (simp_all add: be_bytes_Nil_iff)
    then show ?thesis
      using "1.prems" by (simp add: be_bytes.simps [of n])
  qed
qed

lemma length_be_bytes: "n < 256 ^ k \<Longrightarrow> length (be_bytes n) \<le> k"
proof (induction n arbitrary: k rule: be_bytes.induct)
  case (1 n)
  show ?case
  proof (cases "n \<le> 0")
    case True
    then show ?thesis
      by (simp add: be_bytes.simps [of n])
  next
    case False
    then obtain j where k: "k = Suc j"
      using "1.prems" by (cases k) auto
    have "n div 256 < 256 ^ j"
      using "1.prems" k by (simp add: div_less_iff_less_mult [symmetric]) 
    then have "length (be_bytes (n div 256)) \<le> j"
      using "1.IH" False by simp
    then show ?thesis
      using False k by (simp add: be_bytes.simps [of n])
  qed
qed

lemma unpadBuffer_be_bytes: "unpadBuffer (be_bytes n) = be_bytes n"
proof (cases "n \<le> 0")
  case True
  then show ?thesis
    by (simp add: unpadBuffer_def be_bytes.simps [of n])
next
  case False
  then have "be_bytes n \<noteq> []" and "hd (be_bytes n) \<noteq> 0"
    using hd_be_bytes [of n] by (simp_all add: be_bytes_Nil_iff)
  then show ?thesis
    by (cases "be_bytes n") (simp_all add: unpadBuffer_def)
qed

lemma unpadBuffer_bn_toBuffer: "unpadBuffer (bn_toBuffer v) = be_bytes \<bar>v\<bar>"
  by (simp add: bn_toBuffer_def unpadBuffer_be_bytes)
    (simp add: unpadBuffer_def be_bytes.simps [of 0])

lemma new_BN_raw_field: "0 \<le> v \<Longrightarrow> new_BN (unpadBuffer (bn_toBuffer v)) = v"
  by (simp add: unpadBuffer_bn_toBuffer new_BN_be_bytes)


lemma unat_byte_of_nat: "n < 256 \<Longrightarrow> unat (of_nat n :: byte) = n"
  by (simp add: unat_of_nat)

lemma length_be_bytes_length:
  assumes "56 \<le> n" and "n < 2 ^ 64"
  shows "0 < length (be_bytes (int n))" and "length (be_bytes (int n)) \<le> 8"
proof -
  show "0 < length (be_bytes (int n))"
    using assms(1) by (simp add: be_bytes_Nil_iff)
  have "int n < 256 ^ 8"
    using assms(2) by simp
  then show "length (be_bytes (int n)) \<le> 8"
    by (rule length_be_bytes)
qed

lemma decode_string_encode:
  assumes len: "length b < 2 ^ 64"
  shows "decode_string (rlp_encode_item b @ rest) = Inr (b, rest)"
proof (cases "length b = 1 \<and> hd b < 0x80")
  case True
  then obtain x where b: "b = [x]" and x: "x < 0x80"
    by (cases b) auto
  show ?thesis
    using x by (simp add: b rlp_encode_item_def decode_string_def)
next
  case False
  show ?thesis
  proof (cases "length b < 56")
    case short: True
    define p :: byte where "p = of_nat (length b + 128)"
    have u: "unat p = length b + 128"
      unfolding p_def using short by (intro unat_byte_of_nat) simp
    have single: "\<not> (length b = 1 \<and> hd (b @ rest) < 0x80)"
      using False by (cases b) auto
    have enc: "rlp_encode_item b @ rest = p # b @ rest"
      using False short by (auto simp: rlp_encode_item_def encode_length_def p_def)
    have "decode_string (p # b @ rest) = Inr (b, rest)"
      using short single
      by (simp add: decode_string_def word_less_nat_alt word_le_nat_alt u Let_def)
    then show ?thesis
      by (simp only: enc)
  next
    case long: False
    define bl where "bl = be_bytes (int (length b))"
    define p :: byte where "p = of_nat (length bl + 128 + 55)"
    have l1: "0 < length bl" and l8: "length bl \<le> 8"
      using length_be_bytes_length [of "length b"] long len by (simp_all add: bl_def)
    have u: "unat p = length bl + 183"
      unfolding p_def using l8 by (intro trans [OF unat_byte_of_nat]) simp_all
    have n: "nat (new_BN bl) = length b"
      by (simp add: bl_def new_BN_be_bytes)
    have enc: "rlp_encode_item b @ rest = p # bl @ b @ rest"
      using False long
      by (auto simp: rlp_encode_item_def encode_length_def bl_def p_def Let_def)
    have "decode_string (p # bl @ b @ rest) = Inr (b, rest)"
      using l1 l8
      by (simp add: decode_string_def word_less_nat_alt word_le_nat_alt u n Let_def)
    then show ?thesis
      by (simp only: enc)
  qed
qed

lemma rlp_encode_item_nonempty: "rlp_encode_item b \<noteq> []"
  by (auto simp: rlp_encode_item_def encode_length_def Let_def)

lemma decode_strings_encode:
  assumes "\<forall>b \<in> set xs. length b < 2 ^ 64" and "length xs \<le> fuel"
  shows "decode_strings fuel (concat (map rlp_encode_item xs)) = Inr xs"
  using assms
proof (induction xs arbitrary: fuel)
  case Nil
  then show ?case
    by (cases fuel) simp_all
next
  case (Cons x xs)
  then obtain f where fuel: "fuel = Suc f" and f: "length xs \<le> f"
    by (cases fuel) auto
  have "decode_strings f (concat (map rlp_encode_item xs)) = Inr xs"
    using Cons.IH [of f] Cons.prems(1) f by simp
  then show ?case
    using Cons.prems(1)
    by (simp add: fuel decode_string_encode rlp_encode_item_nonempty bind_Inr)
qed

lemma length_concat_encode: "length xs \<le> length (concat (map rlp_encode_item xs))"
proof (induction xs)
  case Nil
  then show ?case by simp
next
  case (Cons x xs)
  have "1 \<le> length (rlp_encode_item x)"
    using rlp_encode_item_nonempty [of x] by (cases "rlp_encode_item x") simp_all
  then show ?case
    using Cons by simp
qed

lemma rlp_decode_encode:
  assumes items: "\<forall>b \<in> set xs. length b < 2 ^ 64"
    and total: "length (concat (map rlp_encode_item xs)) < 2 ^ 64"
  shows "rlp_decode_buffer (rlp_encode_array xs) = Inr (Array xs)"
proof -
  define payload where "payload = concat (map rlp_encode_item xs)"
  have dec: "decode_strings (length payload) payload = Inr xs"
    unfolding payload_def
    using decode_strings_encode [OF items length_concat_encode] .
  show ?thesis
  proof (cases "length payload < 56")
    case True
    define p :: byte where "p = of_nat (length payload + 192)"
    have u: "unat p = length payload + 192"
      unfolding p_def using True by (intro unat_byte_of_nat) simp
    have enc: "rlp_encode_array xs = p # payload"
      using True
      by (simp add: rlp_encode_array_def payload_def [symmetric] encode_length_def p_def)
    have "rlp_decode_buffer (p # payload) = Inr (Array xs)"
      using True dec
      by (simp add: rlp_decode_buffer_def word_less_nat_alt word_le_nat_alt u bind_Inr)
    then show ?thesis
      by (simp only: enc)
  next
    case False
    define bl where "bl = be_bytes (int (length payload))"
    define p :: byte where "p = of_nat (length bl + 192 + 55)"
    have l1: "0 < length bl" and l8: "length bl \<le> 8"
      using length_be_bytes_length [of "length payload"] False total
      by (simp_all add: bl_def payload_def)
    have u: "unat p = length bl + 247"
      unfolding p_def using l8 by (intro trans [OF unat_byte_of_nat]) simp_all
    have n: "nat (new_BN bl) = length payload"
      by (simp add: bl_def new_BN_be_bytes)
    have enc: "rlp_encode_array xs = p # bl @ payload"
      using False
      by (simp add: rlp_encode_array_def payload_def [symmetric] encode_length_def bl_def
          p_def Let_def)
    have "rlp_decode_buffer (p # bl @ payload) = Inr (Array xs)"
      using l1 l8 dec
      by (simp add: rlp_decode_buffer_def word_less_nat_alt word_le_nat_alt u n bind_Inr Let_def)
    then show ?thesis
      by (simp only: enc)
  qed
qed

lemma checkDAOExtraData_difficulty:
  "checkDAOExtraData c (this\<lparr>difficulty := d\<rparr>) = checkDAOExtraData c this"
  by (simp add: checkDAOExtraData_def)

lemma BlockHeader_checked:
  assumes "BlockHeader lib values opts = Inr (c, h)"
  shows "validateHeaderFields h = Inr ()" and "checkDAOExtraData c h = Inr ()"
proof -
  obtain this where v: "validateHeaderFields this = Inr ()"
    and d: "checkDAOExtraData c this = Inr ()"
    and h: "h = this \<or> (\<exists>d. h = this\<lparr>difficulty := d\<rparr>)"
    using BlockHeader_Inr [OF assms] by blast
  show "validateHeaderFields h = Inr ()"
    using v h by (auto simp: validateHeaderFields_Inr)
  show "checkDAOExtraData c h = Inr ()"
    using d h by (auto simp: checkDAOExtraData_difficulty)
qed

lemma BlockHeader_plain:
  assumes "validateHeaderFields h = Inr ()" and "checkDAOExtraData c h = Inr ()"
  shows "BlockHeader lib h (plain_options c) = Inr (c, h)"
  using assms
  by (simp add: BlockHeader_def constructor_options_def plain_options_def bind_Inr)

lemma value_at_raw:
  "value_at (raw h) 0 = Some (parentHash h)"
  "value_at (raw h) (Suc 0) = Some (uncleHash h)"
  "value_at (raw h) 2 = Some (coinbase h)"
  "value_at (raw h) 3 = Some (stateRoot h)"
  "value_at (raw h) 4 = Some (transactionsTrie h)"
  "value_at (raw h) 5 = Some (receiptTrie h)"
  "value_at (raw h) 6 = Some (bloom h)"
  "value_at (raw h) 7 = Some (unpadBuffer (bn_toBuffer (difficulty h)))"
  "value_at (raw h) 8 = Some (unpadBuffer (bn_toBuffer (number h)))"
  "value_at (raw h) 9 = Some (unpadBuffer (bn_toBuffer (gasLimit h)))"
  "value_at (raw h) 10 = Some (unpadBuffer (bn_toBuffer (gasUsed h)))"
  "value_at (raw h) 11 = Some (unpadBuffer (bn_toBuffer (timestamp h)))"
  "value_at (raw h) 12 = Some (extraData h)"
  "value_at (raw h) 13 = Some (mixHash h)"
  "value_at (raw h) 14 = Some (nonce h)"
  by (simp_all add: value_at_def raw_def)

lemma fromValuesArray_raw:
  assumes "length (coinbase h) = 20"
    and "0 \<le> difficulty h" "0 \<le> number h" "0 \<le> gasLimit h" "0 \<le> gasUsed h" "0 \<le> timestamp h"
  shows "fromValuesArray lib (raw h) opts = BlockHeader lib h opts"
proof -
  have len: "length (raw h) = 15"
    by (simp add: raw_def)
  have fields: "\<lparr> parentHash = parentHash h, uncleHash = uncleHash h, coinbase = coinbase h,
          stateRoot = stateRoot h, transactionsTrie = transactionsTrie h,
          receiptTrie = receiptTrie h, bloom = bloom h, difficulty = difficulty h,
          number = number h, gasLimit = gasLimit h, gasUsed = gasUsed h,
          timestamp = timestamp h, extraData = extraData h, mixHash = mixHash h,
          nonce = nonce h \<rparr> = h"
    by simp
  have "fromValuesArray lib (raw h) opts =
      BlockHeader lib
        \<lparr> parentHash = parentHash h, uncleHash = uncleHash h, coinbase = coinbase h,
          stateRoot = stateRoot h, transactionsTrie = transactionsTrie h,
          receiptTrie = receiptTrie h, bloom = bloom h, difficulty = difficulty h,
          number = number h, gasLimit = gasLimit h, gasUsed = gasUsed h,
          timestamp = timestamp h, extraData = extraData h, mixHash = mixHash h,
          nonce = nonce h \<rparr> opts"
    using assms
    by (simp add: fromValuesArray_def len value_at_raw toBuffer_def new_Address_def bind_Inr
        new_BN_raw_field)
  then show ?thesis
    by (simp only: fields)
qed

text \<open>
  C5. A valid header is one the constructor has built, whose coinbase is an \<open>Address\<close>
  of twenty bytes and whose numbers are not negative. For every valid header \<open>h\<close>,
  decoding its serialization with the chain parameters of \<open>h\<close> gives \<open>h\<close> back, so
  \<open>fromRlpBytes(serialize(h)).raw()\<close> is \<open>h.raw()\<close> byte for byte, for any RLP codec that
  decodes what it encodes. The five numeric fields of \<open>raw()\<close> are big-endian without a
  leading zero byte, zero being the empty string.
\<close>

theorem serialize_roundtrip:
  assumes built: "BlockHeader lib values opts = Inr (c, h)"
    and address: "length (coinbase h) = 20"
    and numbers: "0 \<le> difficulty h" "0 \<le> number h" "0 \<le> gasLimit h" "0 \<le> gasUsed h"
      "0 \<le> timestamp h"
    and codec: "rlp_decode codec (rlp_encode codec (raw h)) = Inr (Array (raw h))"
  shows "fromRLPSerializedHeader codec lib (serialize codec h) (plain_options c) = Inr (c, h)
     \<and> map new_BN (take 5 (drop 7 (raw h)))
         = [difficulty h, number h, gasLimit h, gasUsed h, timestamp h]
     \<and> (\<forall>b \<in> set (take 5 (drop 7 (raw h))). b = [] \<or> hd b \<noteq> 0)"
proof -
  have "fromRLPSerializedHeader codec lib (serialize codec h) (plain_options c)
      = fromValuesArray lib (raw h) (plain_options c)"
    by (simp add: fromRLPSerializedHeader_def serialize_def codec bind_Inr)
  also have "\<dots> = BlockHeader lib h (plain_options c)"
    using address numbers by (rule fromValuesArray_raw)
  also have "\<dots> = Inr (c, h)"
    using BlockHeader_checked [OF built] by (rule BlockHeader_plain)
  finally have 1: "fromRLPSerializedHeader codec lib (serialize codec h) (plain_options c) = Inr (c, h)" .
  have 2: "map new_BN (take 5 (drop 7 (raw h)))
         = [difficulty h, number h, gasLimit h, gasUsed h, timestamp h]"
    using numbers by (simp add: raw_def new_BN_raw_field)
  have nz: "be_bytes n = [] \<or> hd (be_bytes n) \<noteq> 0" for n
    using hd_be_bytes [of n] by (cases "n \<le> 0") (simp_all add: be_bytes_Nil_iff)
  have 3: "\<forall>b \<in> set (take 5 (drop 7 (raw h))). b = [] \<or> hd b \<noteq> 0"
    by (simp add: raw_def unpadBuffer_bn_toBuffer nz)
  from 1 2 3 show ?thesis by blast
qed


lemma rlp_codec_law:
  assumes "\<forall>b \<in> set xs. length b < 2 ^ 64"
    and "length (concat (map rlp_encode_item xs)) < 2 ^ 64"
  shows "rlp_decode rlp (rlp_encode rlp xs) = Inr (Array xs)"
  using rlp_decode_encode [OF assms] by (simp add: rlp_def)

lemma length_rlp_encode_item:
  assumes "length b < 2 ^ 64"
  shows "length (rlp_encode_item b) \<le> length b + 9"
proof (cases "length b < 56")
  case True
  then show ?thesis
    by (simp add: rlp_encode_item_def encode_length_def)
next
  case False
  then have "length (be_bytes (int (length b))) \<le> 8"
    using length_be_bytes_length(2) [of "length b"] assms by simp
  then show ?thesis
    using False by (simp add: rlp_encode_item_def encode_length_def Let_def)
qed

lemma length_concat_rlp:
  assumes "\<forall>b \<in> set xs. length b < 2 ^ 32"
  shows "length (concat (map rlp_encode_item xs)) \<le> length xs * (2 ^ 32 + 9)"
  using assms
proof (induction xs)
  case Nil
  then show ?case by simp
next
  case (Cons x xs)
  have "length x < 2 ^ 64"
    using Cons.prems by (simp add: order_less_trans [of "length x" "2 ^ 32" "2 ^ 64"])
  then have "length (rlp_encode_item x) \<le> 2 ^ 32 + 9"
    using length_rlp_encode_item [of x] Cons.prems by simp
  then show ?case
    using Cons by simp
qed

lemma rlp_header_law:
  assumes "\<forall>b \<in> set (raw h). length b < 2 ^ 32"
  shows "rlp_decode rlp (rlp_encode rlp (raw h)) = Inr (Array (raw h))"
proof (rule rlp_codec_law)
  show "\<forall>b \<in> set (raw h). length b < 2 ^ 64"
    using assms by (auto intro: order_less_trans [of _ "2 ^ 32" "2 ^ 64"])
  have "length (concat (map rlp_encode_item (raw h))) \<le> length (raw h) * (2 ^ 32 + 9)"
    using assms by (rule length_concat_rlp)
  also have "\<dots> = 15 * (2 ^ 32 + 9)"
    by (simp add: raw_def)
  also have "\<dots> < 2 ^ 64"
    by simp
  finally show "length (concat (map rlp_encode_item (raw h))) < 2 ^ 64" .
qed

lemma be_bytes_numeral:
  "be_bytes 0 = []"
  "be_bytes 1 = [1]"
  "be_bytes (numeral k) = be_bytes (numeral k div 256) @ [of_int (numeral k mod 256)]"
  by (simp_all add: be_bytes.simps [of 0] be_bytes.simps [of 1] be_bytes.simps [of "numeral k"])

theorem serialize_roundtrip_witness:
  "BlockHeader example_lib s4_header (plain_options (ethash_common ''istanbul''))
     = Inr (ethash_common ''istanbul'', s4_header)
   \<and> length (coinbase s4_header) = 20
   \<and> 0 \<le> difficulty s4_header \<and> 0 \<le> number s4_header \<and> 0 \<le> gasLimit s4_header
   \<and> 0 \<le> gasUsed s4_header \<and> 0 \<le> timestamp s4_header
   \<and> rlp_decode rlp (rlp_encode rlp (raw s4_header)) = Inr (Array (raw s4_header))
   \<and> fromRLPSerializedHeader rlp example_lib (serialize rlp s4_header)
        (plain_options (ethash_common ''istanbul''))
       = Inr (ethash_common ''istanbul'', s4_header)
   \<and> take 5 (drop 7 (raw s4_header))
       = [[0x01], [0x02], [0xff, 0xff, 0xff, 0xff, 0xff, 0xff, 0xff], [], []]"
proof -
  have r: "take 5 (drop 7 (raw s4_header))
       = [[0x01], [0x02], [0xff, 0xff, 0xff, 0xff, 0xff, 0xff, 0xff], [], []]"
    by (simp add: raw_def s4_header_def default_header_def DEFAULT_GAS_LIMIT_def
        unpadBuffer_bn_toBuffer be_bytes_numeral)
  have b: "BlockHeader example_lib s4_header (plain_options (ethash_common ''istanbul''))
     = Inr (ethash_common ''istanbul'', s4_header)"
    by (rule BlockHeader_plain)
      (simp_all add: validateHeaderFields_def checkDAOExtraData_def s4_header_def
        default_header_def zeros_def KECCAK256_RLP_def ethash_common_def)
  have a: "length (coinbase s4_header) = 20"
    and n: "0 \<le> difficulty s4_header" "0 \<le> number s4_header" "0 \<le> gasLimit s4_header"
      "0 \<le> gasUsed s4_header" "0 \<le> timestamp s4_header"
    by (simp_all add: s4_header_def default_header_def zeros_def DEFAULT_GAS_LIMIT_def)
  have "\<forall>b \<in> set (raw s4_header). length b < 2 ^ 32"
    by (simp add: raw_def s4_header_def default_header_def zeros_def KECCAK256_RLP_def
        KECCAK256_RLP_ARRAY_def DEFAULT_GAS_LIMIT_def unpadBuffer_bn_toBuffer be_bytes_numeral)
  then have c: "rlp_decode rlp (rlp_encode rlp (raw s4_header)) = Inr (Array (raw s4_header))"
    by (rule rlp_header_law)
  have "fromRLPSerializedHeader rlp example_lib (serialize rlp s4_header)
        (plain_options (ethash_common ''istanbul''))
       = Inr (ethash_common ''istanbul'', s4_header)"
    using serialize_roundtrip [OF b a n c] by blast
  with b a n c r show ?thesis by blast
qed

lemma buffer_slice_seal:
  "65 \<le> length b \<Longrightarrow> buffer_slice b 0 (int (length b) - CLIQUE_EXTRA_SEAL) = take (length b - 65) b"
  by (simp add: buffer_slice_def slice_index_def CLIQUE_EXTRA_SEAL_def nat_diff_distrib')

text \<open>
  C7, as the code has it. For a header on a clique chain with a number other than zero
  and at least 65 bytes of \<open>extraData\<close>, \<open>hash\<close> is keccak256 of the RLP encoding of
  \<open>raw()\<close> with element 12 replaced by the first \<open>len(extraData) - 65\<close> bytes of
  \<open>extraData\<close>; for a genesis header, or on a chain that is not clique, it is keccak256
  of the RLP encoding of \<open>raw()\<close>.
\<close>

theorem hash_clique_seal:
  "(consensusAlgorithm c = ''clique'' \<and> number this \<noteq> 0 \<and> 65 \<le> length (extraData this)
      \<longrightarrow> hash codec keccak256 c this
            = keccak256 (rlp_encode codec
                ((raw this)[12 := take (length (extraData this) - 65) (extraData this)])))
   \<and> (number this = 0 \<or> consensusAlgorithm c \<noteq> ''clique''
      \<longrightarrow> hash codec keccak256 c this = keccak256 (rlp_encode codec (raw this)))"
  by (auto simp: hash_def hash_raw_def rlphash_def isGenesis_def buffer_slice_seal Let_def)

theorem hash_clique_seal_witness:
  "consensusAlgorithm clique_common = ''clique'' \<and> number c7_sealed_header \<noteq> 0
   \<and> 65 \<le> length (extraData c7_sealed_header)
   \<and> hash rlp (\<lambda>b. b) clique_common c7_sealed_header
       = rlp_encode_array ((raw c7_sealed_header)[12 := replicate 32 0x01])"
proof -
  have h: "consensusAlgorithm clique_common = ''clique'' \<and> number c7_sealed_header \<noteq> 0
      \<and> 65 \<le> length (extraData c7_sealed_header)"
    by (simp add: clique_common_def c7_sealed_header_def default_header_def)
  have "hash rlp (\<lambda>b. b) clique_common c7_sealed_header
       = rlp_encode_array ((raw c7_sealed_header)[12 := replicate 32 0x01])"
    using hash_clique_seal [of clique_common c7_sealed_header rlp "\<lambda>b. b"] h
    by (simp add: rlp_def c7_sealed_header_def default_header_def)
  with h show ?thesis by blast
qed

text \<open>
  The claim C7 as it is written drops the trailing 65 bytes for every clique header
  that is not a genesis header. With 40 bytes of \<open>extraData\<close> the end index of the slice is
  \<open>-25\<close>, which \<open>Buffer.slice\<close> counts from the end: the first 15 bytes are hashed, where
  dropping 65 bytes leaves none.
\<close>

theorem hash_clique_seal_counterexample:
  "consensusAlgorithm clique_common = ''clique'' \<and> 0 < number c7_header
   \<and> hash_raw clique_common c7_header ! 12 = replicate 15 0x07
   \<and> hash_raw clique_common c7_header
       \<noteq> (raw c7_header)[12 := take (length (extraData c7_header) - 65) (extraData c7_header)]"
  by (simp add: clique_common_def c7_header_def default_header_def hash_raw_def raw_def
      isGenesis_def buffer_slice_def slice_index_def CLIQUE_EXTRA_SEAL_def Let_def)

section \<open>The server\<close>

lemma starts_with_iff: "starts_with p m \<longleftrightarrow> (\<exists>v. m = p @ v)"
  by (induction p m rule: starts_with.induct) auto

lemma occurs_in_iff: "occurs_in p m \<longleftrightarrow> (\<exists>u v. m = u @ p @ v)"
proof (induction m)
  case Nil
  then show ?case by auto
next
  case (Cons x xs)
  show ?case
  proof
    assume "occurs_in p (x # xs)"
    then consider "starts_with p (x # xs)" | "occurs_in p xs"
      by auto
    then show "\<exists>u v. x # xs = u @ p @ v"
    proof cases
      case 1
      then obtain v where "x # xs = p @ v"
        by (auto simp: starts_with_iff)
      then have "x # xs = [] @ p @ v"
        by simp
      then show ?thesis by blast
    next
      case 2
      then obtain u v where "xs = u @ p @ v"
        using Cons.IH by auto
      then have "x # xs = (x # u) @ p @ v"
        by simp
      then show ?thesis by blast
    qed
  next
    assume "\<exists>u v. x # xs = u @ p @ v"
    then obtain u v where uv: "x # xs = u @ p @ v"
      by blast
    show "occurs_in p (x # xs)"
    proof (cases u)
      case Nil
      then have "starts_with p (x # xs)"
        using uv by (auto simp: starts_with_iff)
      then show ?thesis by simp
    next
      case (Cons y ys)
      then have "xs = ys @ p @ v"
        using uv by simp
      then have "occurs_in p xs"
        using Cons.IH by blast
      then show ?thesis by simp
    qed
  qed
qed

lemma ignoredErrors_test_iff:
  "ignoredErrors_test m \<longleftrightarrow>
     (\<exists>p \<in> set [''EPIPE'', ''ECONNRESET'', ''ETIMEDOUT'', ''NetworkId mismatch'',
                  ''Timeout error: ping'', ''Genesis block mismatch'', ''Handshake timed out'',
                  ''Invalid address buffer'', ''Invalid MAC'', ''Invalid timestamp buffer'',
                  ''Hash verification failed'']. \<exists>u v. m = u @ p @ v)"
  unfolding ignoredErrors_test_def ignoredErrors_def list_ex_iff occurs_in_iff ..

text \<open>
  C8. \<open>RlpxServer.error(e, peer)\<close> emits nothing exactly when the message of \<open>e\<close> holds one
  of the eleven ignored patterns; for any other message it emits \<open>error\<close> on the peer
  when one is given, and on the server otherwise.
\<close>

theorem error_ignored_or_emitted:
  "(let ignored = (\<exists>p \<in> set [''EPIPE'', ''ECONNRESET'', ''ETIMEDOUT'', ''NetworkId mismatch'',
                  ''Timeout error: ping'', ''Genesis block mismatch'', ''Handshake timed out'',
                  ''Invalid address buffer'', ''Invalid MAC'', ''Invalid timestamp buffer'',
                  ''Hash verification failed'']. \<exists>u v. message e = u @ p @ v)
    in (emitted (error s e peer) = emitted s \<longleftrightarrow> ignored)
     \<and> (ignored \<longrightarrow> error s e peer = s)
     \<and> (\<not> ignored \<longrightarrow>
          error s e (Some p) = s\<lparr>emitted := emitted s @ [Emit (Peer p) ''error'' [ErrorArg e]]\<rparr>
          \<and> error s e None = s\<lparr>emitted := emitted s @ [Emit Server ''error'' [ErrorArg e]]\<rparr>))"
  unfolding Let_def ignoredErrors_test_iff [symmetric]
  by (auto simp: error_def split: option.splits)

theorem error_ignored_or_emitted_witness:
  "error c8_server \<lparr>message = ''read ECONNRESET''\<rparr> None = c8_server
   \<and> error c8_server \<lparr>message = ''unexpected''\<rparr> None
       = c8_server\<lparr>emitted := [Emit Server ''error'' [ErrorArg \<lparr>message = ''unexpected''\<rparr>]]\<rparr>"
proof -
  have i: "ignoredErrors_test ''read ECONNRESET''" and n: "\<not> ignoredErrors_test ''unexpected''"
    by (simp_all add: ignoredErrors_test_def ignoredErrors_def)
  note t1 = error_ignored_or_emitted [of "\<lparr>message = ''read ECONNRESET''\<rparr>" c8_server None,
      unfolded Let_def ignoredErrors_test_iff [symmetric]]
  note t2 = error_ignored_or_emitted [of "\<lparr>message = ''unexpected''\<rparr>" c8_server None,
      unfolded Let_def ignoredErrors_test_iff [symmetric]]
  have "error c8_server \<lparr>message = ''read ECONNRESET''\<rparr> None = c8_server"
    using t1 i by simp
  moreover have "error c8_server \<lparr>message = ''unexpected''\<rparr> None
       = c8_server\<lparr>emitted := [Emit Server ''error'' [ErrorArg \<lparr>message = ''unexpected''\<rparr>]]\<rparr>"
    using t2 n by (simp add: c8_server_def)
  ultimately show ?thesis by blast
qed

lemma peers_keyed_peer_added:
  "peers_keyed s \<Longrightarrow> peer_added accept s rlpxPeer = Inr s' \<Longrightarrow> peers_keyed s'"
  by (auto simp: peers_keyed_def peer_added_def error_def Let_def
      split: option.splits if_splits)

lemma peers_keyed_peer_removed:
  "peers_keyed s \<Longrightarrow> peer_removed s rlpxPeer reason = Inr s' \<Longrightarrow> peers_keyed s'"
  by (auto simp: peers_keyed_def peer_removed_def Let_def split: option.splits if_splits)

text \<open>
  C9, as the code has it. On \<open>peer:removed(session, reason)\<close>, in a registry that keeps
  every peer under its own id (which \<open>peer:added\<close> and \<open>peer:removed\<close> preserve): if the
  hex id of the session is in the peer map, that record is removed and a \<open>disconnected\<close>
  event is emitted that carries the record; the reason goes to the log line. If the id
  is not in the map, nothing changes and nothing is emitted.
\<close>

theorem peer_removed_registry:
  assumes session: "getId rlpxPeer = Some b"
    and keyed: "peers_keyed s"
  shows "(peers s (toString_hex b) = Some p \<longrightarrow>
            peer_removed s rlpxPeer reason
              = Inr (s\<lparr> peers := (peers s)(toString_hex b := None),
                         debug_log := debug_log s @ [Peer_disconnected reason p],
                         emitted := emitted s @ [Emit Server ''disconnected'' [PeerArg p]] \<rparr>))
       \<and> (peers s (toString_hex b) = None \<longrightarrow> peer_removed s rlpxPeer reason = Inr s)"
  using assms by (auto simp: peer_removed_def peers_keyed_def Let_def)

theorem peer_removed_registry_witness:
  "getId c9_session = Some [0xab, 0x01] \<and> peers_keyed c9_server
   \<and> peers c9_server (toString_hex [0xab, 0x01]) = Some c9_peer
   \<and> peer_removed c9_server c9_session 16
       = Inr (c9_server\<lparr> peers := (peers c9_server)(toString_hex [0xab, 0x01] := None),
                          debug_log := [Peer_disconnected 16 c9_peer],
                          emitted := [Emit Server ''disconnected'' [PeerArg c9_peer]] \<rparr>)"
proof -
  have hex: "toString_hex [0xab, 0x01] = ''ab01''"
    by (simp add: toString_hex_def hex_digit_def)
  have g: "getId c9_session = Some [0xab, 0x01]"
    by (simp add: c9_session_def)
  have k: "peers_keyed c9_server"
    by (simp add: peers_keyed_def c9_server_def c9_peer_def)
  have p: "peers c9_server (toString_hex [0xab, 0x01]) = Some c9_peer"
    by (simp add: hex c9_server_def)
  have "peer_removed c9_server c9_session 16
       = Inr (c9_server\<lparr> peers := (peers c9_server)(toString_hex [0xab, 0x01] := None),
                          debug_log := [Peer_disconnected 16 c9_peer],
                          emitted := [Emit Server ''disconnected'' [PeerArg c9_peer]] \<rparr>)"
    using peer_removed_registry [OF g k, of c9_peer 16] p
    by (simp add: c9_server_def c8_server_def)
  with g k p show ?thesis by blast
qed

text \<open>
  The claim C9 as it is written has the \<open>disconnected\<close> event carry the record and the
  reason. The event of the code has one argument, the record.
\<close>

theorem peer_removed_reason_counterexample:
  "peers c9_server (toString_hex [0xab, 0x01]) = Some c9_peer
   \<and> (case peer_removed c9_server c9_session 16 of
        Inl _ \<Rightarrow> False
      | Inr s' \<Rightarrow> emitted s' = [Emit Server ''disconnected'' [PeerArg c9_peer]]
                 \<and> emitted s' \<noteq> [Emit Server ''disconnected'' [PeerArg c9_peer, ReasonArg 16]])"
  by (simp add: peer_removed_def c9_server_def c8_server_def c9_session_def c9_peer_def
      toString_hex_def hex_digit_def)

text \<open>
  C10. \<open>stop()\<close> never resolves to true. On a server that is not started it resolves to
  false and changes nothing; on a started server with its rlpx and dpt instances it
  destroys both, runs the \<open>stop\<close> of the base class, sets \<open>started\<close> to false and
  resolves to that flag, false.
\<close>

theorem stop_resolves_false:
  "stop super_stop s \<noteq> Inr (True, s')
   \<and> (\<not> started s \<longrightarrow> stop super_stop s = Inr (False, s))
   \<and> (started s \<and> rlpx s = Some r \<and> dpt s = Some d \<longrightarrow>
        stop super_stop s
          = Inr (False, (super_stop (s\<lparr> rlpx := Some (r\<lparr>destroyed := True\<rparr>),
                                         dpt := Some (d\<lparr>destroyed := True\<rparr>) \<rparr>))
                           \<lparr>started := False\<rparr>))"
  by (auto simp: stop_def Let_def split: option.splits)

theorem stop_resolves_false_witness:
  "started c8_server \<and> rlpx c8_server = Some \<lparr>destroyed = False\<rparr>
   \<and> dpt c8_server = Some \<lparr>destroyed = False\<rparr>
   \<and> stop base_stop c8_server
       = Inr (False, c8_server\<lparr> started := False,
                                 rlpx := Some \<lparr>destroyed = True\<rparr>,
                                 dpt := Some \<lparr>destroyed = True\<rparr> \<rparr>)
   \<and> stop base_stop (c8_server\<lparr>started := False\<rparr>) = Inr (False, c8_server\<lparr>started := False\<rparr>)"
proof -
  have h: "started c8_server \<and> rlpx c8_server = Some \<lparr>destroyed = False\<rparr>
      \<and> dpt c8_server = Some \<lparr>destroyed = False\<rparr>"
    by (simp add: c8_server_def)
  have "stop base_stop c8_server
       = Inr (False, c8_server\<lparr> started := False,
                                 rlpx := Some \<lparr>destroyed = True\<rparr>,
                                 dpt := Some \<lparr>destroyed = True\<rparr> \<rparr>)"
    using stop_resolves_false [of base_stop c8_server _ "\<lparr>destroyed = False\<rparr>" "\<lparr>destroyed = False\<rparr>"] h
    by (simp add: base_stop_def c8_server_def)
  moreover have "stop base_stop (c8_server\<lparr>started := False\<rparr>) = Inr (False, c8_server\<lparr>started := False\<rparr>)"
    using stop_resolves_false [of base_stop "c8_server\<lparr>started := False\<rparr>"]
    by simp
  ultimately show ?thesis
    using h by blast
qed

end
